theory Spec2Isabelle
  imports Main
begin

section \<open>JavaScript values\<close>

text \<open>
  The validator, the prompt builder and the runner work on values of TypeScript type
  \<open>unknown\<close>. They are modelled by the datatype \<open>jsval\<close>.

  \<^item> Strings are lists of 8-bit characters, read as code units below 256.
  \<^item> A number is NaN, an infinity, or a finite decimal \<open>Finite m e\<close> standing for
    \<open>m * 10 ^ e\<close>: every number of this program comes from a decimal (or hexadecimal,
    octal, binary) literal. Overflow to an infinity is modelled; the rounding of a
    finite literal to the nearest binary64 value, underflow to zero and the sign of
    zero are not.
  \<^item> A plain object is the list of its own enumerable properties in insertion order,
    with distinct keys. Members inherited from \<open>Object.prototype\<close> (a key such as
    \<open>constructor\<close>) and the special enumeration order of array-index keys are not
    modelled.
\<close>

datatype jsnum = NaN | PosInfinity | NegInfinity | Finite int int

datatype jsval =
    JSUndefined
  | JSNull
  | JSBoolean bool
  | JSNumber jsnum
  | JSString string
  | JSArray "jsval list"
  | JSObject "(string \<times> jsval) list"

fun typeof :: "jsval \<Rightarrow> string" where
  "typeof JSUndefined = ''undefined''"
| "typeof JSNull = ''object''"
| "typeof (JSBoolean b) = ''boolean''"
| "typeof (JSNumber n) = ''number''"
| "typeof (JSString s) = ''string''"
| "typeof (JSArray xs) = ''object''"
| "typeof (JSObject ps) = ''object''"

fun isArray :: "jsval \<Rightarrow> bool" where
  "isArray (JSArray xs) = True"
| "isArray v = False"

subsection \<open>Property access\<close>

text \<open>\<open>obj[k]\<close>: the value of an own property, \<open>undefined\<close> when there is none.\<close>

definition getProp :: "(string \<times> jsval) list \<Rightarrow> string \<Rightarrow> jsval" where
  "getProp obj k = (case map_of obj k of None \<Rightarrow> JSUndefined | Some v \<Rightarrow> v)"

text \<open>\<open>obj[k] = v\<close>: an existing property keeps its place, a new one goes last.\<close>

fun setProp :: "(string \<times> 'v) list \<Rightarrow> string \<Rightarrow> 'v \<Rightarrow> (string \<times> 'v) list" where
  "setProp [] k v = [(k, v)]"
| "setProp ((k', v') # ps) k v = (if k' = k then (k, v) # ps else (k', v') # setProp ps k v)"

text \<open>\<open>k in obj\<close> and \<open>Object.keys(obj)\<close>.\<close>

definition hasProp :: "(string \<times> 'v) list \<Rightarrow> string \<Rightarrow> bool" where
  "hasProp obj k = (k \<in> set (map fst obj))"

definition keys :: "(string \<times> 'v) list \<Rightarrow> string list" where
  "keys obj = map fst obj"

subsection \<open>Strings\<close>

text \<open>White space and line terminators of ECMAScript that are code units below 256.\<close>

definition isWhiteSpace :: "char \<Rightarrow> bool" where
  "isWhiteSpace c =
     (c \<in> set [CHR 0x09, CHR 0x0A, CHR 0x0B, CHR 0x0C, CHR 0x0D, CHR 0x20, CHR 0xA0])"

text \<open>\<open>String.prototype.trim\<close>.\<close>

definition trim :: "string \<Rightarrow> string" where
  "trim s = rev (dropWhile isWhiteSpace (rev (dropWhile isWhiteSpace s)))"

text \<open>\<open>s.split(sep)\<close> for a one-character separator: never an empty list.\<close>

fun split :: "char \<Rightarrow> string \<Rightarrow> string list" where
  "split sep [] = [[]]"
| "split sep (c # cs) =
     (if c = sep then [] # split sep cs
      else (case split sep cs of [] \<Rightarrow> [[c]] | w # ws \<Rightarrow> (c # w) # ws))"

text \<open>\<open>xs.join(sep)\<close> on strings.\<close>

fun join :: "string \<Rightarrow> string list \<Rightarrow> string" where
  "join sep [] = []"
| "join sep [x] = x"
| "join sep (x # y # ys) = x @ sep @ join sep (y # ys)"

definition startsWith :: "string \<Rightarrow> string \<Rightarrow> bool" where
  "startsWith s p = (take (length p) s = p)"

definition endsWith :: "string \<Rightarrow> string \<Rightarrow> bool" where
  "endsWith s p = (length p \<le> length s \<and> drop (length s - length p) s = p)"

subsection \<open>Numbers: parsing and printing\<close>

definition isDigit :: "char \<Rightarrow> bool" where
  "isDigit c = (48 \<le> (of_char c :: nat) \<and> (of_char c :: nat) \<le> 57)"

text \<open>The value of a digit in a base up to 16; \<open>None\<close> for any other character.\<close>

definition digitOf :: "nat \<Rightarrow> char \<Rightarrow> nat option" where
  "digitOf base c =
     (let n = (of_char c :: nat);
          d = (if 48 \<le> n \<and> n \<le> 57 then n - 48
               else if 97 \<le> n \<and> n \<le> 102 then n - 87
               else if 65 \<le> n \<and> n \<le> 70 then n - 55
               else 16)
      in if d < base then Some d else None)"

fun digitsValue :: "nat \<Rightarrow> nat \<Rightarrow> string \<Rightarrow> nat option" where
  "digitsValue base acc [] = Some acc"
| "digitsValue base acc (c # cs) =
     (case digitOf base c of
        None \<Rightarrow> None
      | Some d \<Rightarrow> digitsValue base (acc * base + d) cs)"

text \<open>One or more digits of the base, and nothing else.\<close>

definition numeral_of :: "nat \<Rightarrow> string \<Rightarrow> nat option" where
  "numeral_of base ds = (if ds = [] then None else digitsValue base 0 ds)"

text \<open>
  A literal whose magnitude is at least \<open>2^1024 - 2^970\<close> rounds to an infinity: that is
  the midpoint between the largest binary64 value and \<open>2^1024\<close>.
\<close>

definition overflows :: "nat \<Rightarrow> int \<Rightarrow> bool" where
  "overflows m e =
     (if 0 \<le> e then (2 ^ 1024 - 2 ^ 970 :: int) \<le> int m * 10 ^ nat e
      else (2 ^ 1024 - 2 ^ 970 :: int) * 10 ^ nat (- e) \<le> int m)"

definition mkNumber :: "bool \<Rightarrow> nat \<Rightarrow> int \<Rightarrow> jsnum" where
  "mkNumber negative m e =
     (if overflows m e then (if negative then NegInfinity else PosInfinity)
      else Finite (if negative then - int m else int m) e)"

text \<open>The exponent part: empty, or \<open>e\<close>/\<open>E\<close>, an optional sign and digits.\<close>

definition parseExponent :: "string \<Rightarrow> int option" where
  "parseExponent r =
     (case r of
        [] \<Rightarrow> Some 0
      | c # r1 \<Rightarrow>
          if c = CHR ''e'' \<or> c = CHR ''E'' then
            (case r1 of
               [] \<Rightarrow> None
             | s # r2 \<Rightarrow>
                 if s = CHR ''+'' then map_option int (numeral_of 10 r2)
                 else if s = CHR ''-'' then map_option (\<lambda>n. - int n) (numeral_of 10 r2)
                 else map_option int (numeral_of 10 r1))
          else None)"

text \<open>
  \<open>digits [. digits] [exponent]\<close> or \<open>. digits [exponent]\<close>: the mantissa as a natural
  number and the decimal exponent.
\<close>

definition parseUnsignedDecimal :: "string \<Rightarrow> (nat \<times> int) option" where
  "parseUnsignedDecimal s =
     (let ip = takeWhile isDigit s;
          r1 = dropWhile isDigit s;
          fp = (case r1 of [] \<Rightarrow> [] | c # r \<Rightarrow> if c = CHR ''.'' then takeWhile isDigit r else []);
          r2 = (case r1 of [] \<Rightarrow> [] | c # r \<Rightarrow> if c = CHR ''.'' then dropWhile isDigit r else r1)
      in if ip = [] \<and> fp = [] then None
         else (case (digitsValue 10 0 (ip @ fp), parseExponent r2) of
                 (Some m, Some ex) \<Rightarrow> Some (m, ex - int (length fp))
               | _ \<Rightarrow> None))"

definition parseStrDecimal :: "bool \<Rightarrow> string \<Rightarrow> jsnum" where
  "parseStrDecimal negative s =
     (if s = ''Infinity'' then (if negative then NegInfinity else PosInfinity)
      else (case parseUnsignedDecimal s of
              None \<Rightarrow> NaN
            | Some (m, e) \<Rightarrow> mkNumber negative m e))"

text \<open>\<open>0x\<close>, \<open>0o\<close> and \<open>0b\<close> literals (unsigned).\<close>

definition parseNonDecimal :: "string \<Rightarrow> nat option" where
  "parseNonDecimal t =
     (case t of
        z # b # ds \<Rightarrow>
          if z \<noteq> CHR ''0'' then None
          else if b = CHR ''x'' \<or> b = CHR ''X'' then numeral_of 16 ds
          else if b = CHR ''o'' \<or> b = CHR ''O'' then numeral_of 8 ds
          else if b = CHR ''b'' \<or> b = CHR ''B'' then numeral_of 2 ds
          else None
      | _ \<Rightarrow> None)"

text \<open>\<open>Number(s)\<close> on a string: the StringToNumber operation of ECMAScript.\<close>

definition StringToNumber :: "string \<Rightarrow> jsnum" where
  "StringToNumber s =
     (let t = trim s in
      if t = [] then Finite 0 0
      else (case parseNonDecimal t of
              Some n \<Rightarrow> mkNumber False n 0
            | None \<Rightarrow>
                if hd t = CHR ''+'' then parseStrDecimal False (tl t)
                else if hd t = CHR ''-'' then parseStrDecimal True (tl t)
                else parseStrDecimal False t))"

text \<open>Decimal digits of a natural number.\<close>

fun showNat :: "nat \<Rightarrow> string" where
  "showNat n = (if n < 10 then [char_of (48 + n)] else showNat (n div 10) @ [char_of (48 + n mod 10)])"

declare showNat.simps [simp del]

definition showInt :: "int \<Rightarrow> string" where
  "showInt i = (if i < 0 then CHR ''-'' # showNat (nat (- i)) else showNat (nat i))"

text \<open>
  \<open>Number.prototype.toString\<close>: positional decimal notation without trailing zeros. It
  agrees with JavaScript for literals of at most 15 significant digits and a magnitude
  in \<open>[1e-6, 1e21)\<close>, and for zero; elsewhere JavaScript rounds or uses an exponent.
\<close>

definition dropTrailingZeros :: "string \<Rightarrow> string" where
  "dropTrailingZeros ds = rev (dropWhile (\<lambda>c. c = CHR ''0'') (rev ds))"

definition numberToString :: "jsnum \<Rightarrow> string" where
  "numberToString x =
     (case x of
        NaN \<Rightarrow> ''NaN''
      | PosInfinity \<Rightarrow> ''Infinity''
      | NegInfinity \<Rightarrow> ''-Infinity''
      | Finite m e \<Rightarrow>
          if m = 0 then ''0''
          else
            (let sign = (if m < 0 then ''-'' else '''');
                 ds = showNat (nat \<bar>m\<bar>)
             in if 0 \<le> e then sign @ ds @ replicate (nat e) (CHR ''0'')
                else
                  (let k = nat (- e);
                       padded = replicate (Suc k - length ds) (CHR ''0'') @ ds;
                       ip = take (length padded - k) padded;
                       fp = dropTrailingZeros (drop (length padded - k) padded)
                   in sign @ ip @ (if fp = [] then [] else CHR ''.'' # fp))))"

subsection \<open>Conversions\<close>

text \<open>\<open>String(v)\<close>: arrays join their elements with a comma, \<open>null\<close> and \<open>undefined\<close>
  elements as the empty string; a plain object prints as \<open>[object Object]\<close>.\<close>

fun ToString :: "jsval \<Rightarrow> string" where
  "ToString JSUndefined = ''undefined''"
| "ToString JSNull = ''null''"
| "ToString (JSBoolean b) = (if b then ''true'' else ''false'')"
| "ToString (JSNumber n) = numberToString n"
| "ToString (JSString s) = s"
| "ToString (JSArray xs) =
     join '','' (map (\<lambda>x. if x = JSUndefined \<or> x = JSNull then [] else ToString x) xs)"
| "ToString (JSObject ps) = ''[object Object]''"

text \<open>\<open>Number(v)\<close>: an array or object is converted through its string.\<close>

fun ToNumber :: "jsval \<Rightarrow> jsnum" where
  "ToNumber JSUndefined = NaN"
| "ToNumber JSNull = Finite 0 0"
| "ToNumber (JSBoolean b) = (if b then Finite 1 0 else Finite 0 0)"
| "ToNumber (JSNumber n) = n"
| "ToNumber (JSString s) = StringToNumber s"
| "ToNumber (JSArray xs) = StringToNumber (ToString (JSArray xs))"
| "ToNumber (JSObject ps) = StringToNumber (ToString (JSObject ps))"

text \<open>\<open>Boolean(v)\<close>.\<close>

fun ToBoolean :: "jsval \<Rightarrow> bool" where
  "ToBoolean JSUndefined = False"
| "ToBoolean JSNull = False"
| "ToBoolean (JSBoolean b) = b"
| "ToBoolean (JSNumber n) = (case n of NaN \<Rightarrow> False | Finite m e \<Rightarrow> m \<noteq> 0 | _ \<Rightarrow> True)"
| "ToBoolean (JSString s) = (s \<noteq> [])"
| "ToBoolean (JSArray xs) = True"
| "ToBoolean (JSObject ps) = True"

text \<open>The global \<open>isNaN(v)\<close>.\<close>

definition isNaN :: "jsval \<Rightarrow> bool" where
  "isNaN v = (ToNumber v = NaN)"

subsection \<open>\<open>JSON.parse\<close>\<close>

text \<open>
  A recursive-descent reader of the JSON grammar. \<open>None\<close> stands for the SyntaxError
  that \<open>JSON.parse\<close> throws. A \<open>\u\<close> escape of a code unit above 255 denotes a string
  outside this model's strings and is reported as \<open>None\<close> as well.
\<close>

definition isJsonWs :: "char \<Rightarrow> bool" where
  "isJsonWs c = (c \<in> set [CHR 0x09, CHR 0x0A, CHR 0x0D, CHR 0x20])"

definition skipWs :: "string \<Rightarrow> string" where
  "skipWs s = dropWhile isJsonWs s"

definition jsonEscape :: "char \<Rightarrow> char option" where
  "jsonEscape e =
     (if e = CHR 0x22 then Some (CHR 0x22)
      else if e = CHR 0x5C then Some (CHR 0x5C)
      else if e = CHR ''/'' then Some (CHR ''/'')
      else if e = CHR ''b'' then Some (CHR 0x08)
      else if e = CHR ''f'' then Some (CHR 0x0C)
      else if e = CHR ''n'' then Some (CHR 0x0A)
      else if e = CHR ''r'' then Some (CHR 0x0D)
      else if e = CHR ''t'' then Some (CHR 0x09)
      else None)"

text \<open>The characters of a string literal after its opening quote, and what follows it.\<close>

fun jsonString :: "string \<Rightarrow> (string \<times> string) option" where
  "jsonString [] = None"
| "jsonString [c] = (if c = CHR 0x22 then Some ([], []) else None)"
| "jsonString (c # e # r) =
     (if c = CHR 0x22 then Some ([], e # r)
      else if c = CHR 0x5C then
        (if e = CHR ''u'' then
           (case r of
              h1 # h2 # h3 # h4 # r' \<Rightarrow>
                (case digitsValue 16 0 [h1, h2, h3, h4] of
                   None \<Rightarrow> None
                 | Some n \<Rightarrow>
                     if n < 256 then map_option (apfst ((#) (char_of n))) (jsonString r')
                     else None)
            | _ \<Rightarrow> None)
         else (case jsonEscape e of
                 None \<Rightarrow> None
               | Some ch \<Rightarrow> map_option (apfst ((#) ch)) (jsonString r)))
      else if (of_char c :: nat) < 32 then None
      else map_option (apfst ((#) c)) (jsonString (e # r)))"

text \<open>A JSON number: \<open>-? int frac? exp?\<close>, no leading zeros, digits after the point.\<close>

definition jsonNumber :: "string \<Rightarrow> (jsnum \<times> string) option" where
  "jsonNumber s =
     (let negative = startsWith s ''-'';
          s1 = (if negative then tl s else s);
          ip = takeWhile isDigit s1;
          r1 = dropWhile isDigit s1;
          hasFrac = startsWith r1 ''.'';
          fp = (if hasFrac then takeWhile isDigit (tl r1) else []);
          r2 = (if hasFrac then dropWhile isDigit (tl r1) else r1);
          hasExp = (startsWith r2 ''e'' \<or> startsWith r2 ''E'');
          r3 = (if hasExp then tl r2 else r2);
          expNeg = (hasExp \<and> startsWith r3 ''-'');
          r4 = (if hasExp \<and> (startsWith r3 ''+'' \<or> startsWith r3 ''-'') then tl r3 else r3);
          ed = (if hasExp then takeWhile isDigit r4 else []);
          r5 = (if hasExp then dropWhile isDigit r4 else r2)
      in if ip = [] \<or> (startsWith ip ''0'' \<and> 1 < length ip) then None
         else if hasFrac \<and> fp = [] then None
         else if hasExp \<and> ed = [] then None
         else (case (digitsValue 10 0 (ip @ fp), digitsValue 10 0 ed) of
                 (Some m, Some x) \<Rightarrow>
                   Some (mkNumber negative m
                           ((if expNeg then - int x else int x) - int (length fp)), r5)
               | _ \<Rightarrow> None))"

text \<open>
  Values, the elements of a non-empty array and the members of a non-empty object. The
  first argument bounds the number of nested calls; \<open>JSON_parse\<close> starts with more than a
  text of that length can use.
\<close>

fun jsonValue :: "nat \<Rightarrow> string \<Rightarrow> (jsval \<times> string) option"
  and jsonElements :: "nat \<Rightarrow> string \<Rightarrow> (jsval list \<times> string) option"
  and jsonMembers :: "nat \<Rightarrow> string \<Rightarrow> ((string \<times> jsval) list \<times> string) option"
where
  "jsonValue 0 s = None"
| "jsonValue (Suc n) s =
     (case s of
        [] \<Rightarrow> None
      | c # r \<Rightarrow>
          if c = CHR ''['' then
            (if startsWith (skipWs r) '']'' then Some (JSArray [], tl (skipWs r))
             else map_option (apfst JSArray) (jsonElements n (skipWs r)))
          else if c = CHR ''{'' then
            (if startsWith (skipWs r) ''}'' then Some (JSObject [], tl (skipWs r))
             else map_option
                    (apfst (\<lambda>ms. JSObject (foldl (\<lambda>obj (k, v). setProp obj k v) [] ms)))
                    (jsonMembers n (skipWs r)))
          else if c = CHR 0x22 then map_option (apfst JSString) (jsonString r)
          else if startsWith s ''true'' then Some (JSBoolean True, drop 4 s)
          else if startsWith s ''false'' then Some (JSBoolean False, drop 5 s)
          else if startsWith s ''null'' then Some (JSNull, drop 4 s)
          else map_option (apfst JSNumber) (jsonNumber s))"
| "jsonElements 0 s = None"
| "jsonElements (Suc n) s =
     (case jsonValue n s of
        None \<Rightarrow> None
      | Some (v, r) \<Rightarrow>
          (case skipWs r of
             [] \<Rightarrow> None
           | c # r' \<Rightarrow>
               if c = CHR '']'' then Some ([v], r')
               else if c = CHR '','' then
                 map_option (apfst ((#) v)) (jsonElements n (skipWs r'))
               else None))"
| "jsonMembers 0 s = None"
| "jsonMembers (Suc n) s =
     (case s of
        [] \<Rightarrow> None
      | q # r \<Rightarrow>
          if q \<noteq> CHR 0x22 then None
          else
            (case jsonString r of
               None \<Rightarrow> None
             | Some (k, r1) \<Rightarrow>
                 (case skipWs r1 of
                    [] \<Rightarrow> None
                  | colon # r2 \<Rightarrow>
                      if colon \<noteq> CHR '':'' then None
                      else
                        (case jsonValue n (skipWs r2) of
                           None \<Rightarrow> None
                         | Some (v, r3) \<Rightarrow>
                             (case skipWs r3 of
                                [] \<Rightarrow> None
                              | c # r4 \<Rightarrow>
                                  if c = CHR ''}'' then Some ([(k, v)], r4)
                                  else if c = CHR '','' then
                                    map_option (apfst ((#) (k, v)))
                                      (jsonMembers n (skipWs r4))
                                  else None)))))"

definition JSON_parse :: "string \<Rightarrow> jsval option" where
  "JSON_parse s =
     (case jsonValue (2 * length s + 2) (skipWs s) of
        None \<Rightarrow> None
      | Some (v, r) \<Rightarrow> if skipWs r = [] then Some v else None)"

section \<open>Types (types.ts)\<close>

text \<open>
  An optional property is an \<open>option\<close>, except where the code only reads it through a test
  that cannot tell an absent property from a value: \<open>required\<close> is only tested for
  truth, so absent is \<open>False\<close>; \<open>default\<close> is only compared with \<open>undefined\<close>, so absent is
  \<open>JSUndefined\<close>.

  The fields \<open>type\<close>, \<open>default\<close> and \<open>description\<close> of a parameter definition are
  \<open>ptype\<close>, \<open>default_value\<close> and \<open>pdescription\<close> here, and a parameter name is \<open>pname\<close>
  where the source says \<open>name\<close>.
\<close>

datatype ParamType = TString | TNumber | TBoolean | TArray | TObject

record ParamDefinition =
  ptype :: ParamType
  required :: bool
  default_value :: jsval
  pdescription :: "string option"

type_synonym ParamsSchema = "(string \<times> ParamDefinition) list"

record NetworkCaptureConfig =
  patterns :: "string list"
  methods :: "string list option"
  statusCodes :: "jsnum list option"
  contentType :: "string option"
  saveDir :: string
  extractJson :: "bool option"
  includeRequestHeaders :: "bool option"
  includeResponseHeaders :: "bool option"

record ConsoleCaptureConfig =
  levels :: "string list"
  pattern :: "string option"
  saveAs :: string

record ScreenshotConfig =
  dir :: string
  format :: "string option"
  naming :: "string option"

datatype Screenshots = ScreenshotDir string | ScreenshotCfg ScreenshotConfig

record CaptureConfig =
  network :: "NetworkCaptureConfig option"
  screenshots :: "Screenshots option"
  console :: "ConsoleCaptureConfig option"
  data :: "string option"

record WorkflowDefinition =
  name :: string
  description :: "string option"
  params :: ParamsSchema
  capture :: CaptureConfig
  task :: string

record ValidationError =
  param :: string
  message :: string

record ValidationResult =
  valid :: bool
  errors :: "ValidationError list"
  resolvedParams :: "(string \<times> jsval) list"

section \<open>Parameter validator (validator.ts)\<close>

text \<open>\<open>validateType\<close>: \<open>None\<close> is the source's \<open>null\<close>, no error.\<close>

fun validateType :: "string \<Rightarrow> ParamType \<Rightarrow> jsval \<Rightarrow> ValidationError option" where
  "validateType pname TString v =
     (if typeof v \<noteq> ''string''
      then Some \<lparr>param = pname, message = ''Expected string, got '' @ typeof v\<rparr>
      else None)"
| "validateType pname TNumber v =
     (if typeof v \<noteq> ''number'' \<and> isNaN v
      then Some \<lparr>param = pname, message = ''Expected number, got '' @ typeof v\<rparr>
      else None)"
| "validateType pname TBoolean v =
     (if typeof v \<noteq> ''boolean'' \<and> v \<noteq> JSString ''true'' \<and> v \<noteq> JSString ''false''
      then Some \<lparr>param = pname, message = ''Expected boolean, got '' @ typeof v\<rparr>
      else None)"
| "validateType pname TArray v =
     (if \<not> isArray v then
        (if typeof v = ''string'' then None
         else Some \<lparr>param = pname, message = ''Expected array, got '' @ typeof v\<rparr>)
      else None)"
| "validateType pname TObject v =
     (if typeof v \<noteq> ''object'' \<or> isArray v then
        (case v of
           JSString s \<Rightarrow>
             (case JSON_parse s of
                Some parsed \<Rightarrow> None
              | None \<Rightarrow> Some \<lparr>param = pname, message = ''Expected object, got invalid JSON''\<rparr>)
         | _ \<Rightarrow> Some \<lparr>param = pname, message = ''Expected object, got '' @ typeof v\<rparr>)
      else None)"

text \<open>
  \<open>validateParam\<close> returns the source's \<open>{ value, error? }\<close> as a pair. A value that is
  \<open>undefined\<close>, \<open>null\<close> or the empty string counts as missing.
\<close>

definition validateParam ::
  "string \<Rightarrow> ParamDefinition \<Rightarrow> jsval \<Rightarrow> jsval \<times> ValidationError option" where
  "validateParam pname def v =
     (if v = JSUndefined \<or> v = JSNull \<or> v = JSString [] then
        (if required def then
           (JSUndefined, Some \<lparr>param = pname, message = ''Required parameter missing: '' @ pname\<rparr>)
         else if default_value def \<noteq> JSUndefined then (default_value def, None)
         else (JSUndefined, None))
      else
        (case validateType pname (ptype def) v of
           Some typeError \<Rightarrow> (v, Some typeError)
         | None \<Rightarrow> (v, None)))"

text \<open>The first loop of \<open>validateParams\<close>, over \<open>Object.entries(workflow.params)\<close>.\<close>

fun checkDefined ::
  "ParamsSchema \<Rightarrow> (string \<times> jsval) list \<Rightarrow> ValidationError list \<Rightarrow> (string \<times> jsval) list
     \<Rightarrow> ValidationError list \<times> (string \<times> jsval) list" where
  "checkDefined [] ps errs resolved = (errs, resolved)"
| "checkDefined ((pname, def) # rest) ps errs resolved =
     (case validateParam pname def (getProp ps pname) of
        (v, Some e) \<Rightarrow> checkDefined rest ps (errs @ [e]) resolved
      | (v, None) \<Rightarrow> checkDefined rest ps errs (setProp resolved pname v))"

text \<open>The second loop, over \<open>Object.keys(params)\<close>.\<close>

fun checkUnknown ::
  "ParamsSchema \<Rightarrow> string list \<Rightarrow> ValidationError list \<Rightarrow> ValidationError list" where
  "checkUnknown schema [] errs = errs"
| "checkUnknown schema (pname # rest) errs =
     (if \<not> hasProp schema pname
      then checkUnknown schema rest
             (errs @ [\<lparr>param = pname, message = ''Unknown parameter: '' @ pname\<rparr>])
      else checkUnknown schema rest errs)"

definition validateParams ::
  "WorkflowDefinition \<Rightarrow> (string \<times> jsval) list \<Rightarrow> ValidationResult" where
  "validateParams workflow ps =
     (case checkDefined (params workflow) ps [] [] of
        (errs1, resolved) \<Rightarrow>
          (let errs = checkUnknown (params workflow) (keys ps) errs1
           in \<lparr>valid = (length errs = 0), errors = errs, resolvedParams = resolved\<rparr>))"

text \<open>\<open>coerceValue\<close>; the \<open>default\<close> branch of its \<open>switch\<close> is the type \<open>string\<close>.\<close>

fun coerceValue :: "ParamType \<Rightarrow> jsval \<Rightarrow> jsval" where
  "coerceValue t JSUndefined = JSUndefined"
| "coerceValue t JSNull = JSNull"
| "coerceValue TNumber v = (if typeof v = ''number'' then v else JSNumber (ToNumber v))"
| "coerceValue TBoolean v =
     (if typeof v = ''boolean'' then v
      else if v = JSString ''true'' then JSBoolean True
      else if v = JSString ''false'' then JSBoolean False
      else JSBoolean (ToBoolean v))"
| "coerceValue TArray v =
     (if isArray v then v
      else (case v of
              JSString s \<Rightarrow> JSArray (map (\<lambda>s. JSString (trim s)) (split (CHR '','') s))
            | _ \<Rightarrow> JSArray [v]))"
| "coerceValue TObject v =
     (if typeof v = ''object'' \<and> \<not> isArray v then v
      else (case v of
              JSString s \<Rightarrow> (case JSON_parse s of Some parsed \<Rightarrow> parsed | None \<Rightarrow> v)
            | _ \<Rightarrow> v))"
| "coerceValue TString v = JSString (ToString v)"

text \<open>The loop of \<open>coerceParams\<close>, over \<open>Object.entries(schema)\<close>.\<close>

fun coerceLoop ::
  "ParamsSchema \<Rightarrow> (string \<times> jsval) list \<Rightarrow> (string \<times> jsval) list \<Rightarrow> (string \<times> jsval) list" where
  "coerceLoop [] ps result = result"
| "coerceLoop ((pname, def) # rest) ps result =
     (let v = getProp ps pname in
      if v = JSUndefined \<or> v = JSNull then
        (if default_value def \<noteq> JSUndefined
         then coerceLoop rest ps (setProp result pname (default_value def))
         else coerceLoop rest ps result)
      else coerceLoop rest ps (setProp result pname (coerceValue (ptype def) v)))"

definition coerceParams :: "ParamsSchema \<Rightarrow> (string \<times> jsval) list \<Rightarrow> (string \<times> jsval) list" where
  "coerceParams schema ps = coerceLoop schema ps []"

definition formatErrors :: "ValidationError list \<Rightarrow> string" where
  "formatErrors errs = join [CHR 0x0A] (map (\<lambda>e. ''  - '' @ param e @ '': '' @ message e) errs)"

text \<open>
  Coercion followed by validation, as \<open>runWorkflow\<close>, \<open>executeWorkflow\<close> and the
  \<open>validate\<close> and \<open>prompt\<close> commands compose them.
\<close>

definition coerceAndValidate ::
  "WorkflowDefinition \<Rightarrow> (string \<times> jsval) list \<Rightarrow> ValidationResult" where
  "coerceAndValidate workflow raw = validateParams workflow (coerceParams (params workflow) raw)"

section \<open>Definition helper (workflow.ts)\<close>

text \<open>
  What a workflow author passes to \<open>defineWorkflow\<close>: any of the fields may be missing at
  run time, whatever the TypeScript type says.
\<close>

record RawDefinition =
  raw_name :: "string option"
  raw_description :: "string option"
  raw_params :: "ParamsSchema option"
  raw_capture :: "CaptureConfig option"
  raw_task :: "string option"

text \<open>\<open>s || d\<close> for an optional string: \<open>d\<close> when \<open>s\<close> is missing or empty.\<close>

definition orElse :: "string option \<Rightarrow> string \<Rightarrow> string" where
  "orElse s d = (case s of None \<Rightarrow> d | Some v \<Rightarrow> if v = [] then d else v)"

text \<open>\<open>defineWorkflow\<close>: \<open>Inl\<close> is the message of the thrown \<open>Error\<close>.\<close>

definition defineWorkflow :: "RawDefinition \<Rightarrow> string + WorkflowDefinition" where
  "defineWorkflow d =
     (case raw_name d of
        None \<Rightarrow> Inl ''Workflow must have a name''
      | Some n \<Rightarrow>
          if n = [] then Inl ''Workflow must have a name''
          else
            (case raw_task d of
               None \<Rightarrow> Inl ''Workflow must have a task''
             | Some t \<Rightarrow>
                 if t = [] then Inl ''Workflow must have a task''
                 else
                   (case raw_params d of
                      None \<Rightarrow> Inl ''Workflow must have params (use empty object {} if none)''
                    | Some ps \<Rightarrow>
                        (case raw_capture d of
                           None \<Rightarrow>
                             Inl ''Workflow must have capture config (use empty object {} if none)''
                         | Some cap \<Rightarrow>
                             Inr \<lparr>name = n,
                                  description = raw_description d,
                                  params = ps,
                                  capture = cap,
                                  task = trim t\<rparr>))))"

section \<open>Templates (the Handlebars library)\<close>

text \<open>
  \<open>Handlebars.compile(template)(context)\<close> is modelled for the templates the workflows of
  this repository use: text with placeholders \<open>{{identifier}}\<close>, white space allowed
  inside the braces. For such a template the library reads the text up to the next
  \<open>{{\<close> as content, looks the identifier up among the own properties of the context and
  appends the HTML-escaped value.

  \<open>parseTemplate\<close> is \<open>None\<close> for every other template: one with a block, a comment, a
  partial, a path, a helper call, \<open>{{{\<close> or \<open>{{&\<close>, a backslash before \<open>{{\<close>, an unclosed
  \<open>{{\<close>, or an identifier that names a built-in helper or a literal. What the library
  does with those (an exception for some, an output for others) is not modelled.
\<close>

datatype segment = Content string | Mustache string

definition helperNames :: "string list" where
  "helperNames = [''if'', ''unless'', ''each'', ''with'', ''lookup'', ''log'',
                  ''helperMissing'', ''blockHelperMissing'']"

definition reservedWords :: "string list" where
  "reservedWords = [''true'', ''false'', ''null'', ''undefined'', ''this'', ''else'']"

definition isIdStart :: "char \<Rightarrow> bool" where
  "isIdStart c =
     (let n = (of_char c :: nat) in (65 \<le> n \<and> n \<le> 90) \<or> (97 \<le> n \<and> n \<le> 122) \<or> n = 95)"

definition isIdChar :: "char \<Rightarrow> bool" where
  "isIdChar c = (isIdStart c \<or> isDigit c)"

definition isPlaceholderName :: "string \<Rightarrow> bool" where
  "isPlaceholderName x =
     (x \<noteq> [] \<and> isIdStart (hd x) \<and> list_all isIdChar x
      \<and> x \<notin> set helperNames \<and> x \<notin> set reservedWords)"

text \<open>The pieces of a string between the occurrences of a two-character separator.\<close>

fun splitOn2 :: "char \<Rightarrow> char \<Rightarrow> string \<Rightarrow> string list" where
  "splitOn2 a b [] = [[]]"
| "splitOn2 a b [c] = [[c]]"
| "splitOn2 a b (c # d # r) =
     (if c = a \<and> d = b then [] # splitOn2 a b r
      else (case splitOn2 a b (d # r) of [] \<Rightarrow> [[c]] | w # ws \<Rightarrow> (c # w) # ws))"

text \<open>The text before and after the first occurrence of the separator, if there is one.\<close>

fun breakOn2 :: "char \<Rightarrow> char \<Rightarrow> string \<Rightarrow> (string \<times> string) option" where
  "breakOn2 a b [] = None"
| "breakOn2 a b [c] = None"
| "breakOn2 a b (c # d # r) =
     (if c = a \<and> d = b then Some ([], r)
      else map_option (apfst ((#) c)) (breakOn2 a b (d # r)))"

text \<open>What follows a \<open>{{\<close>: a placeholder name up to \<open>}}\<close>, then content.\<close>

definition parsePiece :: "string \<Rightarrow> (string \<times> string) option" where
  "parsePiece piece =
     (case breakOn2 (CHR ''}'') (CHR ''}'') piece of
        None \<Rightarrow> None
      | Some (inner, rest) \<Rightarrow>
          if isPlaceholderName (trim inner) then Some (trim inner, rest) else None)"

definition parseTemplate :: "string \<Rightarrow> segment list option" where
  "parseTemplate t =
     (if CHR 0x00 \<in> set t then None
      else
        (case splitOn2 (CHR ''{'') (CHR ''{'') t of
           [] \<Rightarrow> None
         | p0 # pieces \<Rightarrow>
             (case those (map parsePiece pieces) of
                None \<Rightarrow> None
              | Some ms \<Rightarrow>
                  if list_ex (\<lambda>chunk. endsWith chunk [CHR 0x5C]) (butlast (p0 # map snd ms))
                  then None
                  else Some (Content p0 # concat (map (\<lambda>(x, rest). [Mustache x, Content rest]) ms)))))"


definition escapeChar :: "char \<Rightarrow> string" where
  "escapeChar c =
     (if c = CHR ''&'' then ''&amp;''
      else if c = CHR ''<'' then ''&lt;''
      else if c = CHR ''>'' then ''&gt;''
      else if c = CHR 0x22 then ''&quot;''
      else if c = CHR 0x27 then ''&#x27;''
      else if c = CHR 0x60 then ''&#x60;''
      else if c = CHR ''='' then ''&#x3D;''
      else [c])"

definition escapeString :: "string \<Rightarrow> string" where
  "escapeString s = concat (map escapeChar s)"

definition escapeExpression :: "jsval \<Rightarrow> string" where
  "escapeExpression v =
     (case v of
        JSString s \<Rightarrow> escapeString s
      | JSUndefined \<Rightarrow> []
      | JSNull \<Rightarrow> []
      | _ \<Rightarrow> if \<not> ToBoolean v then ToString v else escapeString (ToString v))"

fun renderSegment :: "(string \<times> jsval) list \<Rightarrow> segment \<Rightarrow> string" where
  "renderSegment context (Content s) = s"
| "renderSegment context (Mustache x) = escapeExpression (getProp context x)"

definition renderSegments :: "(string \<times> jsval) list \<Rightarrow> segment list \<Rightarrow> string" where
  "renderSegments context segs = concat (map (renderSegment context) segs)"

section \<open>Prompt builder (prompt-builder.ts)\<close>

definition renderTemplate :: "string \<Rightarrow> (string \<times> jsval) list \<Rightarrow> string option" where
  "renderTemplate template context = map_option (renderSegments context) (parseTemplate template)"

text \<open>Lines are joined with a line feed.\<close>

definition joinLines :: "string list \<Rightarrow> string" where
  "joinLines ls = join [CHR 0x0A] ls"

definition buildNetworkInstructions ::
  "NetworkCaptureConfig \<Rightarrow> (string \<times> jsval) list \<Rightarrow> string option" where
  "buildNetworkInstructions config context =
     (case renderTemplate (saveDir config) context of
        None \<Rightarrow> None
      | Some dest \<Rightarrow>
          Some (joinLines
            ([CHR 0x0A # ''NETWORK CAPTURE:'',
              ''- Monitor network requests matching: '' @ join '', '' (patterns config)]
             @ (case methods config of
                  None \<Rightarrow> []
                | Some ms \<Rightarrow>
                    if ms \<noteq> [] then [''- Only capture methods: '' @ join '', '' ms] else [])
             @ (case statusCodes config of
                  None \<Rightarrow> []
                | Some cs \<Rightarrow>
                    if cs \<noteq> []
                    then [''- Only capture status codes: '' @ join '', '' (map numberToString cs)]
                    else [])
             @ (case contentType config of
                  None \<Rightarrow> []
                | Some ct \<Rightarrow> if ct \<noteq> [] then [''- Only capture content type: '' @ ct] else [])
             @ [''- Save responses to: '' @ dest]
             @ (if extractJson config \<noteq> Some False
                then [''- Extract and format JSON responses''] else [])
             @ (if includeRequestHeaders config = Some True
                then [''- Include request headers''] else [])
             @ (if includeResponseHeaders config = Some True
                then [''- Include response headers''] else []))))"

definition buildScreenshotInstructions ::
  "Screenshots \<Rightarrow> (string \<times> jsval) list \<Rightarrow> string option" where
  "buildScreenshotInstructions config context =
     (case config of
        ScreenshotDir d \<Rightarrow>
          (case renderTemplate d context of
             None \<Rightarrow> None
           | Some dest \<Rightarrow>
               Some (joinLines
                 [CHR 0x0A # ''SCREENSHOTS:'',
                  ''- Take screenshots at key steps'',
                  ''- Save to: '' @ dest,
                  ''- Name files descriptively (e.g., 01-login-page.png, 02-dashboard.png)'']))
      | ScreenshotCfg cfg \<Rightarrow>
          (case renderTemplate (dir cfg) context of
             None \<Rightarrow> None
           | Some dest \<Rightarrow>
               Some (joinLines
                 [CHR 0x0A # ''SCREENSHOTS:'',
                  ''- Take screenshots at key steps'',
                  ''- Save to: '' @ dest,
                  ''- Format: '' @ orElse (format cfg) ''png'',
                  (if naming cfg = Some ''timestamp''
                   then ''- Name files with timestamps''
                   else ''- Name files with step numbers and descriptions'')])))"

definition buildConsoleInstructions ::
  "ConsoleCaptureConfig \<Rightarrow> (string \<times> jsval) list \<Rightarrow> string option" where
  "buildConsoleInstructions config context =
     (case renderTemplate (saveAs config) context of
        None \<Rightarrow> None
      | Some dest \<Rightarrow>
          Some (joinLines
            ([CHR 0x0A # ''CONSOLE CAPTURE:'',
              ''- Capture console output: '' @ join '', '' (levels config)]
             @ (case pattern config of
                  None \<Rightarrow> []
                | Some p \<Rightarrow> if p \<noteq> [] then [''- Filter messages matching: '' @ p] else [])
             @ [''- Save to: '' @ dest])))"

text \<open>
  The instructions of the capture sections that are present, in the order network,
  screenshots, console, data. A screenshot directory or data path that is the empty
  string counts as absent.
\<close>

definition captureBlocks :: "CaptureConfig \<Rightarrow> (string \<times> jsval) list \<Rightarrow> string option list" where
  "captureBlocks cap context =
     (case network cap of None \<Rightarrow> [] | Some n \<Rightarrow> [buildNetworkInstructions n context])
     @ (case screenshots cap of
          None \<Rightarrow> []
        | Some (ScreenshotDir d) \<Rightarrow>
            if d \<noteq> [] then [buildScreenshotInstructions (ScreenshotDir d) context] else []
        | Some (ScreenshotCfg cfg) \<Rightarrow> [buildScreenshotInstructions (ScreenshotCfg cfg) context])
     @ (case console cap of None \<Rightarrow> [] | Some c \<Rightarrow> [buildConsoleInstructions c context])
     @ (case data cap of
          None \<Rightarrow> []
        | Some d \<Rightarrow>
            if d \<noteq> []
            then [map_option
                    (\<lambda>dataPath. CHR 0x0A # ''DATA EXTRACTION:'' @ CHR 0x0A #
                       ''- Save extracted data as JSON to: '' @ dataPath)
                    (renderTemplate d context)]
            else [])"

definition buildCaptureInstructions ::
  "CaptureConfig \<Rightarrow> (string \<times> jsval) list \<Rightarrow> string option" where
  "buildCaptureInstructions cap context = map_option joinLines (those (captureBlocks cap context))"

text \<open>The closing section of every prompt.\<close>

definition outputFormat :: "string list" where
  "outputFormat =
     ['''', ''---'', ''OUTPUT FORMAT:'', ''When complete, summarize:'', ''- What was done'',
      ''- Files saved (with paths)'', ''- Any errors or issues encountered'']"

text \<open>
  \<open>buildPrompt\<close>; its third argument is \<open>options.outputDir\<close>. The context is the
  parameters with \<open>name\<close> and \<open>outputDir\<close> set after them.
\<close>

definition promptContext ::
  "WorkflowDefinition \<Rightarrow> (string \<times> jsval) list \<Rightarrow> string option \<Rightarrow> (string \<times> jsval) list" where
  "promptContext workflow ps optOutputDir =
     setProp (setProp ps ''name'' (JSString (name workflow))) ''outputDir''
       (JSString (orElse optOutputDir (''./output/'' @ name workflow)))"

definition buildPrompt ::
  "WorkflowDefinition \<Rightarrow> (string \<times> jsval) list \<Rightarrow> string option \<Rightarrow> string option" where
  "buildPrompt workflow ps optOutputDir =
     (let context = promptContext workflow ps optOutputDir in
      case renderTemplate (task workflow) context of
        None \<Rightarrow> None
      | Some rendered \<Rightarrow>
          (case buildCaptureInstructions (capture workflow) context of
             None \<Rightarrow> None
           | Some captureInstructions \<Rightarrow>
               Some (joinLines
                 ([rendered]
                  @ (if captureInstructions \<noteq> []
                     then ['''', ''---'', ''CAPTURE INSTRUCTIONS:'', captureInstructions]
                     else [])
                  @ outputFormat))))"

section \<open>Host environment\<close>

text \<open>
  What the program reads from its process: the working directory, two environment
  variables, the clock (\<open>Date.now()\<close> on entry and when the result is built), and what the
  operating system answers when a child process is spawned.
\<close>

datatype ChildOutcome =
    Exited "int option" string string
  | SpawnFailed string
  | StillRunning

record Env =
  cwd :: string
  HOME :: "string option"
  USERPROFILE :: "string option"
  timeAtStart :: int
  timeAtEnd :: int
  childPid :: "nat option"
  childOutcome :: ChildOutcome

text \<open>
  \<open>Exited code out err\<close>: the child closed with that exit code (\<open>None\<close> when a signal
  killed it) after writing \<open>out\<close> and \<open>err\<close>. \<open>SpawnFailed\<close>: the \<open>error\<close> event.
  \<open>StillRunning\<close>: neither event ever comes.
\<close>

subsection \<open>Paths (POSIX)\<close>

definition segments :: "string \<Rightarrow> string list" where
  "segments p = filter (\<lambda>s. s \<noteq> []) (split (CHR ''/'') p)"

fun normalizeSegments :: "string list \<Rightarrow> string list \<Rightarrow> string list" where
  "normalizeSegments acc [] = rev acc"
| "normalizeSegments acc (s # ss) =
     (if s = ''.'' then normalizeSegments acc ss
      else if s = ''..'' then normalizeSegments (tl acc) ss
      else normalizeSegments (s # acc) ss)"

text \<open>
  \<open>path.resolve(...args)\<close>: the arguments are applied to the working directory from left
  to right, an absolute one starting over; the result is absolute and normalized.
\<close>

definition resolve :: "string \<Rightarrow> string list \<Rightarrow> string" where
  "resolve wd args =
     CHR ''/'' # join ''/''
       (normalizeSegments []
          (foldl (\<lambda>acc a. if startsWith a ''/'' then segments a else acc @ segments a)
             (segments wd) args))"

text \<open>\<open>path.dirname\<close> of an absolute, normalized path.\<close>

definition dirname :: "string \<Rightarrow> string" where
  "dirname p = CHR ''/'' # join ''/'' (butlast (segments p))"

subsection \<open>File system\<close>

text \<open>
  A file is modelled by what \<open>import()\<close> of it gives: an exception, or the module's
  default export, which is \<open>undefined\<close> or a workflow definition. The names of a directory's
  entries are distinct, and are in the order \<open>readdir\<close> returns them.
\<close>

datatype ModuleResult = ImportThrows string | DefaultExport "WorkflowDefinition option"

datatype fsnode = File ModuleResult | Directory "(string \<times> fsnode) list" | Special

fun isDirectory :: "fsnode \<Rightarrow> bool" where
  "isDirectory (Directory entries) = True"
| "isDirectory node = False"

fun isFile :: "fsnode \<Rightarrow> bool" where
  "isFile (File m) = True"
| "isFile node = False"

fun lookupPath :: "fsnode \<Rightarrow> string list \<Rightarrow> fsnode option" where
  "lookupPath node [] = Some node"
| "lookupPath (Directory entries) (s # ss) =
     (case map_of entries s of None \<Rightarrow> None | Some child \<Rightarrow> lookupPath child ss)"
| "lookupPath node (s # ss) = None"

definition existsSync :: "fsnode \<Rightarrow> string \<Rightarrow> bool" where
  "existsSync fs p = (lookupPath fs (segments p) \<noteq> None)"

definition readdir :: "fsnode \<Rightarrow> string \<Rightarrow> string + (string \<times> fsnode) list" where
  "readdir fs p =
     (case lookupPath fs (segments p) of
        None \<Rightarrow> Inl (''ENOENT: no such file or directory, scandir '' @ p)
      | Some (Directory entries) \<Rightarrow> Inr entries
      | Some node \<Rightarrow> Inl (''ENOTDIR: not a directory, scandir '' @ p))"

text \<open>\<open>import(pathToFileURL(p).href)\<close>.\<close>

definition importModule :: "fsnode \<Rightarrow> string \<Rightarrow> ModuleResult" where
  "importModule fs p =
     (case lookupPath fs (segments p) of
        Some (File m) \<Rightarrow> m
      | Some node \<Rightarrow> ImportThrows (''Cannot import '' @ p)
      | None \<Rightarrow> ImportThrows (''Cannot find module '' @ p))"

text \<open>
  \<open>mkdir(dir, { recursive: true })\<close>: \<open>None\<close> when a component of the path is not a
  directory. Permission errors are not modelled.
\<close>

fun mkdirp :: "fsnode \<Rightarrow> string list \<Rightarrow> fsnode option" where
  "mkdirp node [] = (if isDirectory node then Some node else None)"
| "mkdirp (Directory entries) (s # ss) =
     (case map_of entries s of
        None \<Rightarrow> map_option (\<lambda>child. Directory (entries @ [(s, child)])) (mkdirp (Directory []) ss)
      | Some child \<Rightarrow> map_option (\<lambda>child'. Directory (setProp entries s child')) (mkdirp child ss))"
| "mkdirp node (s # ss) = None"

section \<open>Workflow loader (loader.ts)\<close>

record LoadedWorkflow =
  loaded :: WorkflowDefinition
  filePath :: string
  directory :: string

text \<open>The field \<open>definition\<close> of the source is \<open>loaded\<close> here.\<close>

definition DEFAULT_WORKFLOW_PATHS :: "string list" where
  "DEFAULT_WORKFLOW_PATHS = [''./workflows'', ''~/.chrome-claude/workflows'']"

definition expandHome :: "Env \<Rightarrow> string \<Rightarrow> string" where
  "expandHome env p =
     (if startsWith p ''~/''
      then resolve (cwd env) [orElse (HOME env) (orElse (USERPROFILE env) []), drop 2 p]
      else p)"

definition getWorkflowPaths :: "fsnode \<Rightarrow> Env \<Rightarrow> string list option \<Rightarrow> string list" where
  "getWorkflowPaths fs env customPaths =
     filter (existsSync fs)
       (map (\<lambda>p. resolve (cwd env) [p])
          (map (expandHome env)
             (case customPaths of None \<Rightarrow> DEFAULT_WORKFLOW_PATHS | Some ps \<Rightarrow> ps)))"

text \<open>
  \<open>loadWorkflowFile\<close>: \<open>Inl\<close> is the message of the thrown \<open>Error\<close>. The error for an
  invalid export is thrown inside the \<open>try\<close> block and so is wrapped like an import error.
\<close>

definition loadWorkflowFile :: "fsnode \<Rightarrow> Env \<Rightarrow> string \<Rightarrow> string + LoadedWorkflow" where
  "loadWorkflowFile fs env path =
     (let absolutePath = resolve (cwd env) [path] in
      if \<not> existsSync fs absolutePath then Inl (''Workflow file not found: '' @ absolutePath)
      else
        (case importModule fs absolutePath of
           ImportThrows msg \<Rightarrow> Inl (''Failed to load workflow '' @ absolutePath @ '': '' @ msg)
         | DefaultExport None \<Rightarrow>
             Inl (''Failed to load workflow '' @ absolutePath @ '': Invalid workflow: ''
                  @ absolutePath @ '' - must export default a workflow definition'')
         | DefaultExport (Some d) \<Rightarrow>
             if name d = []
             then Inl (''Failed to load workflow '' @ absolutePath @ '': Invalid workflow: ''
                       @ absolutePath @ '' - must export default a workflow definition'')
             else Inr \<lparr>loaded = d, filePath = absolutePath, directory = dirname absolutePath\<rparr>))"

text \<open>
  \<open>scanDirectory\<close> and its loop over the entries of the directory. An exception of
  \<open>readdir\<close> or of a nested scan ends the scan; a file that does not load is skipped.
\<close>

function scanDirectory :: "fsnode \<Rightarrow> Env \<Rightarrow> string \<Rightarrow> nat \<Rightarrow> nat \<Rightarrow> string + LoadedWorkflow list"
  and scanEntries ::
    "fsnode \<Rightarrow> Env \<Rightarrow> string \<Rightarrow> nat \<Rightarrow> nat \<Rightarrow> (string \<times> fsnode) list \<Rightarrow> LoadedWorkflow list
       \<Rightarrow> string + LoadedWorkflow list"
where
  "scanDirectory fs env d maxDepth currentDepth =
     (if currentDepth \<ge> maxDepth then Inr []
      else if \<not> existsSync fs d then Inr []
      else (case readdir fs d of
              Inl e \<Rightarrow> Inl e
            | Inr entries \<Rightarrow> scanEntries fs env d maxDepth currentDepth entries []))"
| "scanEntries fs env d maxDepth currentDepth [] workflows = Inr workflows"
| "scanEntries fs env d maxDepth currentDepth ((ename, node) # rest) workflows =
     (if isDirectory node \<and> \<not> startsWith ename ''.'' then
        (case scanDirectory fs env (resolve (cwd env) [d, ename]) maxDepth (currentDepth + 1) of
           Inl e \<Rightarrow> Inl e
         | Inr nested \<Rightarrow> scanEntries fs env d maxDepth currentDepth rest (workflows @ nested))
      else if isFile node \<and> endsWith ename ''.ts'' \<and> \<not> startsWith ename ''_'' then
        (case loadWorkflowFile fs env (resolve (cwd env) [d, ename]) of
           Inl e \<Rightarrow> scanEntries fs env d maxDepth currentDepth rest workflows
         | Inr w \<Rightarrow> scanEntries fs env d maxDepth currentDepth rest (workflows @ [w]))
      else scanEntries fs env d maxDepth currentDepth rest workflows)"
  by pat_completeness auto
termination
  by (relation "measures
        [\<lambda>x. case x of
                Inl (fs, env, d, maxDepth, currentDepth) \<Rightarrow>
                  if currentDepth \<ge> maxDepth then 0 else 2 * (maxDepth - currentDepth) + 2
              | Inr (fs, env, d, maxDepth, currentDepth, entries, workflows) \<Rightarrow>
                  2 * (maxDepth - currentDepth) + 1,
         \<lambda>x. case x of
                Inl (fs, env, d, maxDepth, currentDepth) \<Rightarrow> 0
              | Inr (fs, env, d, maxDepth, currentDepth, entries, workflows) \<Rightarrow> length entries]")
     auto

declare scanDirectory.simps [simp del]

text \<open>The scans of the search paths, one after the other.\<close>

fun scanAll :: "fsnode \<Rightarrow> Env \<Rightarrow> string list \<Rightarrow> LoadedWorkflow list \<Rightarrow> string + LoadedWorkflow list" where
  "scanAll fs env [] workflows = Inr workflows"
| "scanAll fs env (searchPath # rest) workflows =
     (case scanDirectory fs env searchPath 2 0 of
        Inl e \<Rightarrow> Inl e
      | Inr found \<Rightarrow> scanAll fs env rest (workflows @ found))"

text \<open>The filter that keeps the first workflow of each name.\<close>

fun dedupe :: "string list \<Rightarrow> LoadedWorkflow list \<Rightarrow> LoadedWorkflow list" where
  "dedupe seen [] = []"
| "dedupe seen (w # ws) =
     (if name (loaded w) \<in> set seen then dedupe seen ws
      else w # dedupe (name (loaded w) # seen) ws)"

definition listWorkflows :: "fsnode \<Rightarrow> Env \<Rightarrow> string list option \<Rightarrow> string + LoadedWorkflow list" where
  "listWorkflows fs env searchPaths =
     (case scanAll fs env (getWorkflowPaths fs env searchPaths) [] of
        Inl e \<Rightarrow> Inl e
      | Inr workflows \<Rightarrow> Inr (dedupe [] workflows))"

text \<open>
  The first loop of \<open>loadWorkflow\<close>: the path of the file to load, if a file name
  matches directly under a search path or one directory below.
\<close>

fun findNested :: "fsnode \<Rightarrow> Env \<Rightarrow> string \<Rightarrow> string \<Rightarrow> (string \<times> fsnode) list \<Rightarrow> string option" where
  "findNested fs env searchPath wname [] = None"
| "findNested fs env searchPath wname ((ename, node) # rest) =
     (if isDirectory node \<and> existsSync fs (resolve (cwd env) [searchPath, ename, wname @ ''.ts''])
      then Some (resolve (cwd env) [searchPath, ename, wname @ ''.ts''])
      else findNested fs env searchPath wname rest)"

fun findByFilename :: "fsnode \<Rightarrow> Env \<Rightarrow> string \<Rightarrow> string list \<Rightarrow> string + string option" where
  "findByFilename fs env wname [] = Inr None"
| "findByFilename fs env wname (searchPath # rest) =
     (if existsSync fs (resolve (cwd env) [searchPath, wname @ ''.ts''])
      then Inr (Some (resolve (cwd env) [searchPath, wname @ ''.ts'']))
      else (case readdir fs searchPath of
              Inl e \<Rightarrow> Inl e
            | Inr entries \<Rightarrow>
                (case findNested fs env searchPath wname entries of
                   Some p \<Rightarrow> Inr (Some p)
                 | None \<Rightarrow> findByFilename fs env wname rest)))"

definition loadWorkflow ::
  "fsnode \<Rightarrow> Env \<Rightarrow> string \<Rightarrow> string list option \<Rightarrow> string + LoadedWorkflow" where
  "loadWorkflow fs env wname searchPaths =
     (case findByFilename fs env wname (getWorkflowPaths fs env searchPaths) of
        Inl e \<Rightarrow> Inl e
      | Inr (Some p) \<Rightarrow> loadWorkflowFile fs env p
      | Inr None \<Rightarrow>
          (case listWorkflows fs env searchPaths of
             Inl e \<Rightarrow> Inl e
           | Inr allWorkflows \<Rightarrow>
               (case find (\<lambda>w. name (loaded w) = wname) allWorkflows of
                  Some found \<Rightarrow> Inr found
                | None \<Rightarrow>
                    Inl (''Workflow not found: '' @ wname @ CHR 0x0A # ''Searched in: ''
                         @ join '', '' (getWorkflowPaths fs env searchPaths)))))"

definition getWorkflow ::
  "fsnode \<Rightarrow> Env \<Rightarrow> string \<Rightarrow> string list option \<Rightarrow> string + LoadedWorkflow" where
  "getWorkflow fs env nameOrPath searchPaths =
     (if CHR ''/'' \<in> set nameOrPath \<or> endsWith nameOrPath ''.ts''
      then loadWorkflowFile fs env nameOrPath
      else loadWorkflow fs env nameOrPath searchPaths)"

section \<open>Workflow runner (runner.ts)\<close>

record RunOptions =
  runParams :: "(string \<times> jsval) list"
  background :: "bool option"
  workDir :: "string option"
  dryRun :: "bool option"

text \<open>The field \<open>params\<close> of \<open>RunOptions\<close> is \<open>runParams\<close> here.\<close>

record RunResult =
  success :: bool
  outputDir :: string
  files :: "(string \<times> jsval) list"
  error :: "string option"
  duration :: "int option"

text \<open>An \<open>async\<close> function returns a promise: resolved, rejected, or never settled.\<close>

datatype 'a promise = Resolved 'a | Rejected string | Pending

text \<open>
  What a run can change: the file system, the processes it has spawned, and what it
  has written to its standard output and standard error.
\<close>

record SpawnCall =
  command :: string
  args :: "string list"
  detached :: bool
  stdio :: "string list"
  shell :: bool

record World =
  fileSystem :: fsnode
  spawned :: "SpawnCall list"
  stdout :: "string list"
  stderr :: "string list"

definition spawnClaude :: "string \<Rightarrow> bool \<Rightarrow> SpawnCall" where
  "spawnClaude prompt isDetached =
     \<lparr>command = ''claude'',
      args = [''--chrome'', ''-p'', prompt, ''--output-format'', ''text''],
      detached = isDetached,
      stdio = (if isDetached then [''ignore''] else [''ignore'', ''pipe'', ''pipe'']),
      shell = True\<rparr>"

text \<open>\<open>ensureDir\<close>: \<open>Inl\<close> is the error of \<open>mkdir\<close>.\<close>

definition ensureDir :: "fsnode \<Rightarrow> string \<Rightarrow> string + fsnode" where
  "ensureDir fs d =
     (if \<not> existsSync fs d then
        (case mkdirp fs (segments d) of
           None \<Rightarrow> Inl (''ENOTDIR: not a directory, mkdir '' @ d)
         | Some fs' \<Rightarrow> Inr fs')
      else Inr fs)"

definition runInBackground :: "string \<Rightarrow> string \<Rightarrow> Env \<Rightarrow> World \<Rightarrow> RunResult promise \<times> World" where
  "runInBackground prompt outDir env world =
     (Resolved \<lparr>success = True, outputDir = outDir, files = [], error = None,
                duration = Some (timeAtEnd env - timeAtStart env)\<rparr>,
      world\<lparr>spawned := spawned world @ [spawnClaude prompt True],
            stdout := stdout world @
              [''Workflow running in background (PID: ''
                 @ (case childPid env of None \<Rightarrow> ''undefined'' | Some n \<Rightarrow> showNat n) @ '')'',
               ''Output will be saved to: '' @ outDir]\<rparr>)"

text \<open>
  \<open>runForeground\<close>: the output of the child is copied to the run's own streams; the
  promise settles on the first of \<open>close\<close> and \<open>error\<close>.
\<close>

definition runForeground :: "string \<Rightarrow> string \<Rightarrow> Env \<Rightarrow> World \<Rightarrow> RunResult promise \<times> World" where
  "runForeground prompt outDir env world =
     (let started = world\<lparr>spawned := spawned world @ [spawnClaude prompt False]\<rparr> in
      case childOutcome env of
        StillRunning \<Rightarrow> (Pending, started)
      | SpawnFailed msg \<Rightarrow>
          (Resolved \<lparr>success = False, outputDir = outDir, files = [], error = Some msg,
                     duration = Some (timeAtEnd env - timeAtStart env)\<rparr>,
           started)
      | Exited code out err \<Rightarrow>
          (Resolved
             (if code = Some 0
              then \<lparr>success = True, outputDir = outDir, files = [], error = None,
                    duration = Some (timeAtEnd env - timeAtStart env)\<rparr>
              else \<lparr>success = False, outputDir = outDir, files = [],
                    error = Some (if err \<noteq> [] then err
                                  else ''Process exited with code ''
                                       @ (case code of None \<Rightarrow> ''null'' | Some c \<Rightarrow> showInt c)),
                    duration = Some (timeAtEnd env - timeAtStart env)\<rparr>),
           started\<lparr>stdout := stdout started @ (if out = [] then [] else [out]),
                   stderr := stderr started @ (if err = [] then [] else [err])\<rparr>))"

text \<open>
  \<open>executeWorkflow\<close>, and the body of \<open>runWorkflow\<close> after the workflow is loaded (the two
  are the same statements). The result is \<open>None\<close> when a template of the workflow is
  outside the modelled templates, see \<open>parseTemplate\<close>.
\<close>

definition executeWorkflow ::
  "WorkflowDefinition \<Rightarrow> RunOptions \<Rightarrow> Env \<Rightarrow> World \<Rightarrow> (RunResult promise \<times> World) option" where
  "executeWorkflow def options env world =
     (let validation = validateParams def (coerceParams (params def) (runParams options)) in
      if \<not> valid validation then
        Some (Resolved \<lparr>success = False, outputDir = [], files = [],
                        error = Some (''Parameter validation failed:'' @ CHR 0x0A #
                                        formatErrors (errors validation)),
                        duration = None\<rparr>,
              world)
      else
        (let outDir = resolve (cwd env) [orElse (workDir options) (cwd env), ''output'', name def] in
         case buildPrompt def (resolvedParams validation) (Some outDir) of
           None \<Rightarrow> None
         | Some prompt \<Rightarrow>
             if dryRun options = Some True then
               Some (Resolved \<lparr>success = True, outputDir = outDir, files = [], error = None,
                               duration = Some (timeAtEnd env - timeAtStart env)\<rparr>,
                     world\<lparr>stdout := stdout world @
                       [''=== DRY RUN ==='',
                        ''Prompt that would be sent to Claude:'' @ [CHR 0x0A],
                        prompt,
                        CHR 0x0A # ''=== END DRY RUN ==='']\<rparr>)
             else
               (case ensureDir (fileSystem world) outDir of
                  Inl e \<Rightarrow> Some (Rejected e, world)
                | Inr fs' \<Rightarrow>
                    if background options \<noteq> Some False
                    then Some (runInBackground prompt outDir env (world\<lparr>fileSystem := fs'\<rparr>))
                    else Some (runForeground prompt outDir env (world\<lparr>fileSystem := fs'\<rparr>)))))"

definition runWorkflow ::
  "string \<Rightarrow> RunOptions \<Rightarrow> Env \<Rightarrow> World \<Rightarrow> (RunResult promise \<times> World) option" where
  "runWorkflow nameOrPath options env world =
     (case getWorkflow (fileSystem world) env nameOrPath None of
        Inl e \<Rightarrow> Some (Rejected e, world)
      | Inr w \<Rightarrow> executeWorkflow (loaded w) options env world)"

section \<open>Example definitions\<close>

text \<open>Small workflow definitions on which the theorems below are evaluated.\<close>

definition noCapture :: CaptureConfig where
  "noCapture = \<lparr>network = None, screenshots = None, console = None, data = None\<rparr>"

definition requiredParam :: "ParamType \<Rightarrow> ParamDefinition" where
  "requiredParam t = \<lparr>ptype = t, required = True, default_value = JSUndefined, pdescription = None\<rparr>"

definition optionalParam :: "ParamType \<Rightarrow> jsval \<Rightarrow> ParamDefinition" where
  "optionalParam t d = \<lparr>ptype = t, required = False, default_value = d, pdescription = None\<rparr>"

definition demoWorkflow :: "ParamsSchema \<Rightarrow> string \<Rightarrow> WorkflowDefinition" where
  "demoWorkflow schema template =
     \<lparr>name = ''demo'', description = None, params = schema, capture = noCapture, task = template\<rparr>"

definition openWorkflow :: "string \<Rightarrow> WorkflowDefinition" where
  "openWorkflow template =
     \<lparr>name = ''open'', description = None, params = [(''url'', requiredParam TString)],
      capture = noCapture, task = template\<rparr>"

text \<open>
  A file system with a project root and a user-global root. Both hold a workflow that
  declares the name \<open>open\<close>; a third file fails to load.
\<close>

definition exampleFs :: fsnode where
  "exampleFs =
     Directory
       [(''p'', Directory
           [(''workflows'', Directory
               [(''open.ts'', File (DefaultExport (Some (openWorkflow ''Open {{url}}''))))])]),
        (''home'', Directory
           [(''.chrome-claude'', Directory
               [(''workflows'', Directory
                   [(''browse.ts'', File (DefaultExport (Some (openWorkflow ''Browse {{url}}'')))),
                    (''broken.ts'', File (ImportThrows ''Workflow must have a task''))])])])]"

definition exampleEnv :: Env where
  "exampleEnv =
     \<lparr>cwd = ''/p'', HOME = Some ''/home'', USERPROFILE = None, timeAtStart = 100,
      timeAtEnd = 150, childPid = Some 42, childOutcome = StillRunning\<rparr>"

definition exampleWorld :: World where
  "exampleWorld = \<lparr>fileSystem = exampleFs, spawned = [], stdout = [], stderr = []\<rparr>"

definition exampleOptions :: "(string \<times> jsval) list \<Rightarrow> bool \<Rightarrow> RunOptions" where
  "exampleOptions ps dry =
     \<lparr>runParams = ps, background = None, workDir = None, dryRun = Some dry\<rparr>"

definition rawOpen :: "string \<Rightarrow> RawDefinition" where
  "rawOpen template =
     \<lparr>raw_name = Some ''open'', raw_description = None, raw_params = Some [],
      raw_capture = Some noCapture, raw_task = Some template\<rparr>"

section \<open>Properties of the validator\<close>

subsection \<open>Objects\<close>

lemma map_of_setProp: "map_of (setProp ps k v) = (map_of ps)(k \<mapsto> v)"
  by (induction ps) (auto simp: fun_eq_iff)

lemma getProp_setProp: "getProp (setProp ps k v) k' = (if k' = k then v else getProp ps k')"
  by (simp add: getProp_def map_of_setProp)

lemma keys_setProp: "set (keys (setProp ps k v)) = insert k (set (keys ps))"
  by (simp add: keys_def dom_map_of_conv_image_fst [symmetric] map_of_setProp)

lemma validateType_param: "validateType n t v = Some e \<Longrightarrow> param e = n"
  by (cases t) (auto split: if_splits jsval.splits option.splits)

lemma validateParam_param: "validateParam n d v = (v', Some e) \<Longrightarrow> param e = n"
  by (auto simp: validateParam_def split: if_splits option.splits dest: validateType_param)

lemma checkDefined_errors:
  "fst (checkDefined sch ps errs res) =
     errs @ List.map_filter (\<lambda>(n, d). snd (validateParam n d (getProp ps n))) sch"
  by (induction sch ps errs res rule: checkDefined.induct)
     (auto simp: List.map_filter_simps split: prod.splits option.splits)

lemma checkDefined_resolved_other:
  "k \<notin> fst ` set sch \<Longrightarrow> map_of (snd (checkDefined sch ps errs res)) k = map_of res k"
  by (induction sch ps errs res rule: checkDefined.induct)
     (auto simp: map_of_setProp split: prod.splits option.splits)

lemma checkDefined_resolved:
  "distinct (map fst sch) \<Longrightarrow> (k, d) \<in> set sch \<Longrightarrow>
   map_of (snd (checkDefined sch ps errs res)) k =
     (case validateParam k d (getProp ps k) of
        (v, None) \<Rightarrow> Some v
      | (v, Some e) \<Rightarrow> map_of res k)"
proof (induction sch ps errs res rule: checkDefined.induct)
  case (1 ps errs res)
  then show ?case by simp
next
  case (2 n d' rest ps errs res)
  show ?case
  proof (cases "n = k")
    case True
    with 2 have d: "d' = d" and notin: "k \<notin> fst ` set rest" by (auto simp: rev_image_eqI)
    show ?thesis using True d notin
      by (auto simp: checkDefined_resolved_other map_of_setProp split: prod.splits option.splits)
  next
    case False
    with 2 show ?thesis
      by (auto simp: map_of_setProp split: prod.splits option.splits)
  qed
qed

lemma checkUnknown_eq:
  "checkUnknown sch ks errs =
     errs @ map (\<lambda>n. \<lparr>param = n, message = ''Unknown parameter: '' @ n\<rparr>)
              (filter (\<lambda>n. \<not> hasProp sch n) ks)"
  by (induction sch ks errs rule: checkUnknown.induct) auto

lemma coerceLoop_keys:
  "set (keys (coerceLoop sch ps res)) \<subseteq> set (keys res) \<union> fst ` set sch"
  by (induction sch ps res rule: coerceLoop.induct)
     (auto simp: keys_setProp Let_def split: if_splits)

lemma coerceParams_keys: "set (keys (coerceParams sch ps)) \<subseteq> fst ` set sch"
  using coerceLoop_keys [of sch ps "[]"] by (simp add: coerceParams_def keys_def)

lemma coerceLoop_other:
  "k \<notin> fst ` set sch \<Longrightarrow> getProp (coerceLoop sch ps res) k = getProp res k"
  by (induction sch ps res rule: coerceLoop.induct)
     (auto simp: getProp_setProp Let_def)

lemma coerceLoop_get:
  "distinct (map fst sch) \<Longrightarrow> (k, d) \<in> set sch \<Longrightarrow>
   getProp (coerceLoop sch ps res) k =
     (if getProp ps k = JSUndefined \<or> getProp ps k = JSNull
      then (if default_value d \<noteq> JSUndefined then default_value d else getProp res k)
      else coerceValue (ptype d) (getProp ps k))"
proof (induction sch ps res rule: coerceLoop.induct)
  case (1 ps res)
  then show ?case by simp
next
  case (2 n d' rest ps res)
  show ?case
  proof (cases "n = k")
    case True
    with 2 have d: "d' = d" and notin: "k \<notin> fst ` set rest" by (auto simp: rev_image_eqI)
    show ?thesis using True d notin
      by (auto simp: coerceLoop_other getProp_setProp Let_def)
  next
    case False
    with 2 show ?thesis
      by (auto simp: getProp_setProp Let_def)
  qed
qed

lemma pipeline_errors:
  "errors (coerceAndValidate w raw) =
     List.map_filter (\<lambda>(n, d). snd (validateParam n d (getProp (coerceParams (params w) raw) n)))
       (params w)"
proof -
  have "filter (\<lambda>n. \<not> hasProp (params w) n) (keys (coerceParams (params w) raw)) = []"
    using coerceParams_keys [of "params w" raw] by (auto simp: filter_empty_conv hasProp_def)
  moreover obtain e r where cd: "checkDefined (params w) (coerceParams (params w) raw) [] [] = (e, r)"
    by (cases "checkDefined (params w) (coerceParams (params w) raw) [] []")
  moreover have "e = List.map_filter (\<lambda>(n, d). snd (validateParam n d (getProp (coerceParams (params w) raw) n))) (params w)"
    using checkDefined_errors [of "params w" "coerceParams (params w) raw" "[]" "[]"] cd by simp
  ultimately show ?thesis
    by (simp add: coerceAndValidate_def validateParams_def checkUnknown_eq)
qed

lemma set_map_filter: "set (List.map_filter f xs) = {y. \<exists>x. x \<in> set xs \<and> f x = Some y}"
  by (induction xs) (auto split: option.splits)

lemma validateParams_fields:
  "errors (validateParams w ps) =
     checkUnknown (params w) (keys ps) (fst (checkDefined (params w) ps [] []))"
  "resolvedParams (validateParams w ps) = snd (checkDefined (params w) ps [] [])"
  "valid (validateParams w ps) = (errors (validateParams w ps) = [])"
  by (cases "checkDefined (params w) ps [] []"; simp add: validateParams_def Let_def)+

lemma validateParams_resolved:
  assumes "distinct (map fst (params w))" and "(k, d) \<in> set (params w)"
  shows "map_of (resolvedParams (validateParams w ps)) k =
           (case validateParam k d (getProp ps k) of
              (v, None) \<Rightarrow> Some v
            | (v, Some e) \<Rightarrow> None)"
  using checkDefined_resolved [OF assms, of ps "[]" "[]"]
  by (simp add: validateParams_fields split: prod.splits option.splits)

lemma validateParams_errors_for:
  assumes "distinct (map fst (params w))" and "(k, d) \<in> set (params w)"
  shows "(e \<in> set (errors (validateParams w ps)) \<and> param e = k) \<longleftrightarrow>
           snd (validateParam k d (getProp ps k)) = Some e"
proof -
  obtain es r where cd: "checkDefined (params w) ps [] [] = (es, r)"
    by (cases "checkDefined (params w) ps [] []")
  have es: "es = List.map_filter (\<lambda>(n, d). snd (validateParam n d (getProp ps n))) (params w)"
    using checkDefined_errors [of "params w" ps "[]" "[]"] cd by simp
  have errs: "set (errors (validateParams w ps)) =
      set es \<union> (\<lambda>n. \<lparr>param = n, message = ''Unknown parameter: '' @ n\<rparr>) `
                  {n \<in> set (keys ps). \<not> hasProp (params w) n}"
    using cd by (simp add: validateParams_def checkUnknown_eq)
  have known: "hasProp (params w) k"
    using assms(2) by (auto simp: hasProp_def intro: rev_image_eqI)
  have in_es: "e \<in> set es \<longleftrightarrow> (\<exists>n d'. (n, d') \<in> set (params w) \<and> snd (validateParam n d' (getProp ps n)) = Some e)"
    by (auto simp: es set_map_filter)
  show ?thesis
  proof
    assume a: "e \<in> set (errors (validateParams w ps)) \<and> param e = k"
    then have "e \<in> set es" using errs known by auto
    then obtain n d' where nd: "(n, d') \<in> set (params w)"
      and v: "snd (validateParam n d' (getProp ps n)) = Some e"
      using in_es by blast
    from v have "param e = n"
      using validateParam_param [of n d' "getProp ps n" "fst (validateParam n d' (getProp ps n))" e]
      by (metis prod.collapse)
    with a have "n = k" by simp
    with nd assms have "d' = d" by (meson eq_key_imp_eq_value)
    with v \<open>n = k\<close> show "snd (validateParam k d (getProp ps k)) = Some e" by simp
  next
    assume v: "snd (validateParam k d (getProp ps k)) = Some e"
    then have "e \<in> set es" using in_es assms(2) by blast
    moreover from v have "param e = k"
      using validateParam_param [of k d "getProp ps k" "fst (validateParam k d (getProp ps k))" e]
      by (metis prod.collapse)
    ultimately show "e \<in> set (errors (validateParams w ps)) \<and> param e = k"
      using errs by simp
  qed
qed

lemma in_keys_iff: "k \<in> set (keys ps) \<longleftrightarrow> map_of ps k \<noteq> None"
  by (simp add: keys_def map_of_eq_None_iff)

lemma getProp_coerceParams:
  assumes "distinct (map fst sch)" and "(k, d) \<in> set sch"
  shows "getProp (coerceParams sch ps) k =
     (if getProp ps k = JSUndefined \<or> getProp ps k = JSNull
      then default_value d
      else coerceValue (ptype d) (getProp ps k))"
  using coerceLoop_get [OF assms, of ps "[]"]
  by (simp add: coerceParams_def getProp_def)

lemmas ex_defs = noCapture_def requiredParam_def optionalParam_def demoWorkflow_def

subsection \<open>Three inputs\<close>

text \<open>
  A missing required parameter is the only error; a numeric string becomes a number; a
  comma-separated string becomes the list of its trimmed parts.
\<close>

lemma scenario_missing_required:
  "coerceAndValidate (demoWorkflow [(''url'', requiredParam TString)] ''Open {{url}}'') [] =
     \<lparr>valid = False,
      errors = [\<lparr>param = ''url'', message = ''Required parameter missing: url''\<rparr>],
      resolvedParams = []\<rparr>"
  by code_simp

lemma scenario_numeric_string:
  "coerceAndValidate
     (demoWorkflow [(''count'', optionalParam TNumber (JSNumber (Finite 3 0)))] ''Repeat {{count}} times'')
     [(''count'', JSString ''7'')] =
     \<lparr>valid = True, errors = [], resolvedParams = [(''count'', JSNumber (Finite 7 0))]\<rparr>"
  by code_simp

lemma scenario_comma_separated:
  "coerceAndValidate (demoWorkflow [(''tags'', optionalParam TArray JSUndefined)] ''Tag {{tags}}'')
     [(''tags'', JSString ''a, b, c'')] =
     \<lparr>valid = True, errors = [],
      resolvedParams = [(''tags'', JSArray [JSString ''a'', JSString ''b'', JSString ''c''])]\<rparr>"
  by code_simp

subsection \<open>Unknown input keys\<close>

text \<open>
  \<open>coerceParams\<close> builds its result from the keys of the schema only, so the object that
  \<open>validateParams\<close> receives has no other key and its check for unknown parameters never
  fires: an input key outside the schema has no error entry and no resolved value.
\<close>

lemma unknown_key_dropped:
  assumes "k \<notin> fst ` set (params w)"
  shows "k \<notin> param ` set (errors (coerceAndValidate w raw))"
    and "k \<notin> set (keys (resolvedParams (coerceAndValidate w raw)))"
proof -
  show "k \<notin> param ` set (errors (coerceAndValidate w raw))"
  proof
    assume "k \<in> param ` set (errors (coerceAndValidate w raw))"
    then obtain e where e: "e \<in> set (errors (coerceAndValidate w raw))" and k: "param e = k"
      by auto
    from e obtain n d where nd: "(n, d) \<in> set (params w)"
      and v: "snd (validateParam n d (getProp (coerceParams (params w) raw) n)) = Some e"
      by (auto simp: pipeline_errors set_map_filter)
    from v have "param e = n"
      using validateParam_param by (metis prod.collapse)
    with k nd assms show False by (auto intro: rev_image_eqI)
  qed
  show "k \<notin> set (keys (resolvedParams (coerceAndValidate w raw)))"
    using checkDefined_resolved_other [OF assms, of "coerceParams (params w) raw" "[]" "[]"]
    by (simp add: in_keys_iff coerceAndValidate_def validateParams_fields)
qed

text \<open>
  C1. Claimed: coercion followed by validation reports an unknown-parameter error for
  each input key that the schema does not declare, and drops no key silently. On the
  code, the input key \<open>verbose\<close> below is not declared, and the result is valid, has no
  error and has no value for it.
\<close>

theorem unknown_key_silently_dropped:
  "coerceAndValidate (demoWorkflow [(''url'', requiredParam TString)] ''Open {{url}}'')
     [(''url'', JSString ''http://x''), (''verbose'', JSString ''yes'')] =
   \<lparr>valid = True, errors = [], resolvedParams = [(''url'', JSString ''http://x'')]\<rparr>"
  by code_simp

text \<open>\<open>validateParams\<close> itself, given the same input without coercion, reports the key.\<close>

lemma validateParams_reports_unknown:
  "validateParams (demoWorkflow [(''url'', requiredParam TString)] ''Open {{url}}'')
     [(''url'', JSString ''http://x''), (''verbose'', JSString ''yes'')] =
   \<lparr>valid = False,
    errors = [\<lparr>param = ''verbose'', message = ''Unknown parameter: verbose''\<rparr>],
    resolvedParams = [(''url'', JSString ''http://x'')]\<rparr>"
  by code_simp

subsection \<open>Number parameters\<close>

text \<open>
  C2, as the code has it. A string given for a number parameter is replaced by
  \<open>Number(s)\<close> during coercion, and \<open>validateType\<close> accepts whatever has type number. So
  for every string whose numeric parsing is not NaN (a finite number or an infinity),
  the parsed number is the resolved value and the parameter has no error.
\<close>

theorem number_string_accepted:
  assumes "distinct (map fst (params w))"
    and "(pname, def) \<in> set (params w)"
    and "ptype def = TNumber"
    and "getProp raw pname = JSString s"
    and "StringToNumber s \<noteq> NaN"
  shows "map_of (resolvedParams (coerceAndValidate w raw)) pname = Some (JSNumber (StringToNumber s))
         \<and> pname \<notin> param ` set (errors (coerceAndValidate w raw))"
proof -
  let ?c = "coerceParams (params w) raw"
  have c: "getProp ?c pname = JSNumber (StringToNumber s)"
    using getProp_coerceParams [OF assms(1,2), of raw] assms(3,4) by simp
  have v: "validateParam pname def (getProp ?c pname) = (JSNumber (StringToNumber s), None)"
    using assms(3) by (simp add: c validateParam_def)
  have r: "map_of (resolvedParams (coerceAndValidate w raw)) pname = Some (JSNumber (StringToNumber s))"
    using validateParams_resolved [OF assms(1,2), of ?c] v by (simp add: coerceAndValidate_def)
  have "\<And>e. e \<in> set (errors (coerceAndValidate w raw)) \<Longrightarrow> param e \<noteq> pname"
    using validateParams_errors_for [OF assms(1,2), of _ ?c] v by (auto simp: coerceAndValidate_def)
  with r show ?thesis by auto
qed

lemma StringToNumber_7: "StringToNumber ''7'' = Finite 7 0"
  by code_simp

theorem number_string_accepted_witness:
  "StringToNumber ''7'' \<noteq> NaN \<and>
   map_of (resolvedParams (coerceAndValidate
       (demoWorkflow [(''count'', optionalParam TNumber (JSNumber (Finite 3 0)))] ''Repeat {{count}} times'')
       [(''count'', JSString ''7'')])) ''count'' = Some (JSNumber (Finite 7 0)) \<and>
   ''count'' \<notin> param ` set (errors (coerceAndValidate
       (demoWorkflow [(''count'', optionalParam TNumber (JSNumber (Finite 3 0)))] ''Repeat {{count}} times'')
       [(''count'', JSString ''7'')]))"
proof -
  let ?w = "demoWorkflow [(''count'', optionalParam TNumber (JSNumber (Finite 3 0)))] ''Repeat {{count}} times''"
  have h1: "distinct (map fst (params ?w))" by (simp add: ex_defs)
  have h2: "(''count'', optionalParam TNumber (JSNumber (Finite 3 0))) \<in> set (params ?w)"
    by (simp add: ex_defs)
  have h3: "ptype (optionalParam TNumber (JSNumber (Finite 3 0))) = TNumber" by (simp add: ex_defs)
  have h4: "getProp [(''count'', JSString ''7'')] ''count'' = JSString ''7''" by (simp add: getProp_def)
  have h5: "StringToNumber ''7'' \<noteq> NaN" by (simp add: StringToNumber_7)
  show ?thesis
    using number_string_accepted [OF h1 h2 h3 h4 h5] h5 by (simp add: StringToNumber_7)
qed

text \<open>
  The string \<open>Infinity\<close> does not parse to a finite number, and it is accepted: the test of
  \<open>validateType\<close> is \<open>isNaN\<close>, not finiteness.
\<close>

theorem number_infinity_accepted:
  "StringToNumber ''Infinity'' = PosInfinity \<and>
   coerceAndValidate (demoWorkflow [(''count'', optionalParam TNumber JSUndefined)] ''Repeat {{count}} times'')
     [(''count'', JSString ''Infinity'')] =
   \<lparr>valid = True, errors = [], resolvedParams = [(''count'', JSNumber PosInfinity)]\<rparr>"
  by code_simp

text \<open>
  A string that parses to NaN is accepted as well: after coercion the value has type
  number, and \<open>validateType\<close> only calls \<open>isNaN\<close> on values of another type.
\<close>

lemma number_nan_accepted:
  "StringToNumber ''abc'' = NaN \<and>
   coerceAndValidate (demoWorkflow [(''count'', optionalParam TNumber JSUndefined)] ''Repeat {{count}} times'')
     [(''count'', JSString ''abc'')] =
   \<lparr>valid = True, errors = [], resolvedParams = [(''count'', JSNumber NaN)]\<rparr>"
  by code_simp

text \<open>\<open>validateParams\<close> itself, given the string without coercion, rejects it.\<close>

lemma validateParams_rejects_nan_string:
  "validateParams (demoWorkflow [(''count'', optionalParam TNumber JSUndefined)] ''Repeat {{count}} times'')
     [(''count'', JSString ''abc'')] =
   \<lparr>valid = False,
    errors = [\<lparr>param = ''count'', message = ''Expected number, got string''\<rparr>],
    resolvedParams = []\<rparr>"
  by code_simp

subsection \<open>Boolean parameters\<close>

text \<open>
  C3. Claimed: for a boolean parameter every string other than \<open>true\<close> and \<open>false\<close> is
  rejected with a validation error. On the code, \<open>coerceValue\<close> turns any other string
  into \<open>Boolean(s)\<close> before \<open>validateType\<close> sees it: the string \<open>yes\<close> is resolved to
  \<open>true\<close> with no error.
\<close>

theorem boolean_other_string_accepted:
  "coerceAndValidate (demoWorkflow [(''flag'', optionalParam TBoolean JSUndefined)] ''Go'')
     [(''flag'', JSString ''yes'')] =
   \<lparr>valid = True, errors = [], resolvedParams = [(''flag'', JSBoolean True)]\<rparr>"
  by code_simp

text \<open>\<open>validateParams\<close> itself, given the string without coercion, rejects it.\<close>

lemma validateParams_rejects_other_string:
  "validateParams (demoWorkflow [(''flag'', optionalParam TBoolean JSUndefined)] ''Go'')
     [(''flag'', JSString ''yes'')] =
   \<lparr>valid = False,
    errors = [\<lparr>param = ''flag'', message = ''Expected boolean, got string''\<rparr>],
    resolvedParams = []\<rparr>"
  by code_simp

subsection \<open>The empty string\<close>

text \<open>
  C9. \<open>validateParams\<close> treats a declared parameter whose value is the empty string as
  absent: \<open>validateParam\<close> returns what it returns for \<open>undefined\<close>; a required parameter
  gets the missing-parameter error and no resolved value; an optional parameter with a
  default is resolved to the default, with no error.
\<close>

theorem empty_string_is_missing:
  assumes "distinct (map fst (params w))"
    and "(pname, def) \<in> set (params w)"
    and "getProp ps pname = JSString []"
  shows "validateParam pname def (JSString []) = validateParam pname def JSUndefined
    \<and> (required def \<longrightarrow>
           \<lparr>param = pname, message = ''Required parameter missing: '' @ pname\<rparr>
             \<in> set (errors (validateParams w ps))
           \<and> pname \<notin> set (keys (resolvedParams (validateParams w ps))))
    \<and> (\<not> required def \<and> default_value def \<noteq> JSUndefined \<longrightarrow>
           map_of (resolvedParams (validateParams w ps)) pname = Some (default_value def)
           \<and> pname \<notin> param ` set (errors (validateParams w ps)))"
proof -
  have same: "validateParam pname def (JSString []) = validateParam pname def JSUndefined"
    by (simp add: validateParam_def)
  have req: "\<lparr>param = pname, message = ''Required parameter missing: '' @ pname\<rparr>
             \<in> set (errors (validateParams w ps))
           \<and> pname \<notin> set (keys (resolvedParams (validateParams w ps)))"
    if r: "required def"
  proof -
    have v: "validateParam pname def (getProp ps pname) =
        (JSUndefined, Some \<lparr>param = pname, message = ''Required parameter missing: '' @ pname\<rparr>)"
      using r by (simp add: validateParam_def assms(3))
    have "\<lparr>param = pname, message = ''Required parameter missing: '' @ pname\<rparr>
             \<in> set (errors (validateParams w ps))"
      using validateParams_errors_for [OF assms(1,2),
          of "\<lparr>param = pname, message = ''Required parameter missing: '' @ pname\<rparr>" ps] v
      by simp
    moreover have "pname \<notin> set (keys (resolvedParams (validateParams w ps)))"
      using validateParams_resolved [OF assms(1,2), of ps] v by (simp add: in_keys_iff)
    ultimately show ?thesis by simp
  qed
  have dflt: "map_of (resolvedParams (validateParams w ps)) pname = Some (default_value def)
           \<and> pname \<notin> param ` set (errors (validateParams w ps))"
    if a: "\<not> required def \<and> default_value def \<noteq> JSUndefined"
  proof -
    have v: "validateParam pname def (getProp ps pname) = (default_value def, None)"
      using a by (simp add: validateParam_def assms(3))
    have "map_of (resolvedParams (validateParams w ps)) pname = Some (default_value def)"
      using validateParams_resolved [OF assms(1,2), of ps] v by simp
    moreover have "\<And>e. e \<in> set (errors (validateParams w ps)) \<Longrightarrow> param e \<noteq> pname"
      using validateParams_errors_for [OF assms(1,2), of _ ps] v by auto
    ultimately show ?thesis by auto
  qed
  show ?thesis using same req dflt by blast
qed

theorem empty_string_is_missing_witness:
  "\<lparr>param = ''url'', message = ''Required parameter missing: url''\<rparr>
      \<in> set (errors (validateParams
            (demoWorkflow [(''url'', requiredParam TString), (''tag'', optionalParam TString (JSString ''none''))] ''Open {{url}}'')
            [(''url'', JSString ''''), (''tag'', JSString '''')])) \<and>
   ''url'' \<notin> set (keys (resolvedParams (validateParams
            (demoWorkflow [(''url'', requiredParam TString), (''tag'', optionalParam TString (JSString ''none''))] ''Open {{url}}'')
            [(''url'', JSString ''''), (''tag'', JSString '''')]))) \<and>
   map_of (resolvedParams (validateParams
            (demoWorkflow [(''url'', requiredParam TString), (''tag'', optionalParam TString (JSString ''none''))] ''Open {{url}}'')
            [(''url'', JSString ''''), (''tag'', JSString '''')])) ''tag'' = Some (JSString ''none'')"
proof -
  let ?w = "demoWorkflow [(''url'', requiredParam TString), (''tag'', optionalParam TString (JSString ''none''))] ''Open {{url}}''"
  let ?ps = "[(''url'', JSString ''''), (''tag'', JSString '''')]"
  have h1: "distinct (map fst (params ?w))" by (simp add: ex_defs)
  have u2: "(''url'', requiredParam TString) \<in> set (params ?w)" by (simp add: ex_defs)
  have t2: "(''tag'', optionalParam TString (JSString ''none'')) \<in> set (params ?w)" by (simp add: ex_defs)
  have u3: "getProp ?ps ''url'' = JSString []" by (simp add: getProp_def)
  have t3: "getProp ?ps ''tag'' = JSString []" by (simp add: getProp_def)
  show ?thesis
    using empty_string_is_missing [OF h1 u2 u3] empty_string_is_missing [OF h1 t2 t3]
    by (simp add: ex_defs)
qed

section \<open>Properties of the definition helper\<close>

lemma trim_decomp:
  "\<exists>pre post. s = pre @ trim s @ post \<and> list_all isWhiteSpace pre \<and> list_all isWhiteSpace post"
proof -
  let ?u = "dropWhile isWhiteSpace s"
  have "s = takeWhile isWhiteSpace s @ ?u" by simp
  moreover have "?u = trim s @ rev (takeWhile isWhiteSpace (rev ?u))"
  proof -
    have "rev (dropWhile isWhiteSpace (rev ?u)) @ rev (takeWhile isWhiteSpace (rev ?u)) =
          rev (takeWhile isWhiteSpace (rev ?u) @ dropWhile isWhiteSpace (rev ?u))"
      by (simp only: rev_append)
    also have "\<dots> = ?u" by simp
    finally show ?thesis by (simp add: trim_def)
  qed
  moreover have "list_all isWhiteSpace (takeWhile isWhiteSpace s)"
    by (simp add: list_all_iff) (meson set_takeWhileD)
  moreover have "list_all isWhiteSpace (rev (takeWhile isWhiteSpace (rev ?u)))"
    by (simp add: list_all_iff) (meson set_takeWhileD)
  ultimately show ?thesis by metis
qed

lemma trim_ends:
  assumes "trim s \<noteq> []"
  shows "\<not> isWhiteSpace (hd (trim s)) \<and> \<not> isWhiteSpace (last (trim s))"
proof -
  let ?u = "dropWhile isWhiteSpace s"
  let ?d = "dropWhile isWhiteSpace (rev ?u)"
  have d: "?d \<noteq> []" using assms by (simp add: trim_def)
  have l: "last (trim s) = hd ?d" using d by (simp add: trim_def last_rev)
  have "\<not> isWhiteSpace (hd ?d)" using d hd_dropWhile by blast
  with l have last: "\<not> isWhiteSpace (last (trim s))" by simp
  have u: "?u \<noteq> []"
  proof
    assume e: "?u = []"
    have "?d = dropWhile isWhiteSpace (rev [])" by (simp only: e)
    with d show False by simp
  qed
  have "?u = trim s @ rev (takeWhile isWhiteSpace (rev ?u))"
  proof -
    have "rev ?d @ rev (takeWhile isWhiteSpace (rev ?u)) =
          rev (takeWhile isWhiteSpace (rev ?u) @ ?d)"
      by (simp only: rev_append)
    also have "\<dots> = ?u" by simp
    finally show ?thesis by (simp add: trim_def)
  qed
  then have "hd ?u = hd (trim s)" using assms by (metis hd_append2)
  moreover have "\<not> isWhiteSpace (hd ?u)" using u hd_dropWhile by blast
  ultimately show ?thesis using last by simp
qed

text \<open>
  C8. \<open>defineWorkflow\<close> throws exactly when the name or the task is missing or empty, or
  the parameters or the capture configuration are absent. When it returns, every field is
  the one it was given, except the task: the returned task is the given one without its
  leading and trailing white space, so that everything between them, placeholders
  included, is as it was.
\<close>

theorem defineWorkflow_contract:
  "((\<exists>msg. defineWorkflow d = Inl msg) \<longleftrightarrow>
      (raw_name d = None \<or> raw_name d = Some [] \<or> raw_task d = None \<or> raw_task d = Some []
       \<or> raw_params d = None \<or> raw_capture d = None))
   \<and> (\<forall>w. defineWorkflow d = Inr w \<longrightarrow>
         raw_name d = Some (name w) \<and> description w = raw_description d
         \<and> raw_params d = Some (params w) \<and> raw_capture d = Some (capture w)
         \<and> (\<exists>t pre post. raw_task d = Some t \<and> t = pre @ task w @ post
               \<and> list_all isWhiteSpace pre \<and> list_all isWhiteSpace post
               \<and> (task w \<noteq> [] \<longrightarrow> \<not> isWhiteSpace (hd (task w)) \<and> \<not> isWhiteSpace (last (task w)))))"
proof -
  have fails: "(\<exists>msg. defineWorkflow d = Inl msg) \<longleftrightarrow>
      (raw_name d = None \<or> raw_name d = Some [] \<or> raw_task d = None \<or> raw_task d = Some []
       \<or> raw_params d = None \<or> raw_capture d = None)"
    by (auto simp: defineWorkflow_def split: option.splits if_splits)
  have ok: "raw_name d = Some (name w) \<and> description w = raw_description d
         \<and> raw_params d = Some (params w) \<and> raw_capture d = Some (capture w)
         \<and> (\<exists>t pre post. raw_task d = Some t \<and> t = pre @ task w @ post
               \<and> list_all isWhiteSpace pre \<and> list_all isWhiteSpace post
               \<and> (task w \<noteq> [] \<longrightarrow> \<not> isWhiteSpace (hd (task w)) \<and> \<not> isWhiteSpace (last (task w))))"
    if w: "defineWorkflow d = Inr w" for w
  proof -
    from w obtain n t ps cap where f: "raw_name d = Some n" "raw_task d = Some t"
        "raw_params d = Some ps" "raw_capture d = Some cap"
      and weq: "w = \<lparr>name = n, description = raw_description d, params = ps, capture = cap, task = trim t\<rparr>"
      by (auto simp: defineWorkflow_def split: option.splits if_splits)
    obtain pre post where "t = pre @ trim t @ post" "list_all isWhiteSpace pre" "list_all isWhiteSpace post"
      using trim_decomp by blast
    then show ?thesis using f weq trim_ends [of t] by auto
  qed
  show ?thesis using fails ok by blast
qed

theorem defineWorkflow_contract_witness:
  "defineWorkflow (rawOpen ''  Open {{url}}  '') =
     Inr \<lparr>name = ''open'', description = None, params = [], capture = noCapture,
          task = ''Open {{url}}''\<rparr>
   \<and> (\<exists>msg. defineWorkflow (rawOpen []) = Inl msg)"
proof -
  have ok: "defineWorkflow (rawOpen ''  Open {{url}}  '') =
     Inr \<lparr>name = ''open'', description = None, params = [], capture = noCapture,
          task = ''Open {{url}}''\<rparr>"
    by code_simp
  show ?thesis
    using defineWorkflow_contract [of "rawOpen []"] ok by (simp add: rawOpen_def)
qed

section \<open>Properties of the prompt builder\<close>


lemma renderSegments_append:
  "renderSegments ctx (a @ b) = renderSegments ctx a @ renderSegments ctx b"
  by (simp add: renderSegments_def)











text \<open>
  A template that is plain text, one placeholder and plain text again is read as these
  three segments.
\<close>

lemma splitOn2_plain: "a \<notin> set s \<Longrightarrow> splitOn2 a b s = [s]"
  by (induction a b s rule: splitOn2.induct) auto

lemma splitOn2_prefix:
  "a \<notin> set pre \<Longrightarrow> splitOn2 a a (pre @ a # a # r) = pre # splitOn2 a a r"
proof (induction pre)
  case Nil
  then show ?case by simp
next
  case (Cons c pre)
  then show ?case by (cases pre) auto
qed

lemma breakOn2_prefix:
  "a \<notin> set x \<Longrightarrow> breakOn2 a a (x @ a # a # r) = Some (x, r)"
proof (induction x)
  case Nil
  then show ?case by simp
next
  case (Cons c x)
  then show ?case by (cases x) auto
qed

lemma idChar_not_space: "isIdChar c \<Longrightarrow> \<not> isWhiteSpace c"
  by (auto simp: isIdChar_def isIdStart_def isDigit_def isWhiteSpace_def Let_def)

lemma trim_id:
  assumes "x \<noteq> []" and "\<not> isWhiteSpace (hd x)" and "\<not> isWhiteSpace (last x)"
  shows "trim x = x"
proof -
  have a: "dropWhile isWhiteSpace x = x" using assms(1,2) by (cases x) auto
  have "dropWhile isWhiteSpace (rev x) = rev x"
    using assms(1,3) by (cases "rev x") (auto simp: last_rev [symmetric] hd_rev)
  then show ?thesis by (simp add: trim_def a)
qed

lemma placeholder_trim: "isPlaceholderName x \<Longrightarrow> trim x = x"
proof -
  assume p: "isPlaceholderName x"
  then have ne: "x \<noteq> []" and all: "list_all isIdChar x" by (auto simp: isPlaceholderName_def)
  then have "isIdChar (hd x)" "isIdChar (last x)" by (auto simp: list_all_iff)
  then show ?thesis using ne idChar_not_space trim_id by blast
qed

lemma placeholder_no_brace: "isPlaceholderName x \<Longrightarrow> CHR ''}'' \<notin> set x \<and> CHR ''{'' \<notin> set x"
  by (auto simp: isPlaceholderName_def list_all_iff isIdChar_def isIdStart_def isDigit_def Let_def)

lemma parseTemplate_placeholder:
  assumes "isPlaceholderName x"
    and "CHR ''{'' \<notin> set pre" and "CHR 0x00 \<notin> set pre" and "\<not> endsWith pre [CHR 0x5C]"
    and "CHR ''{'' \<notin> set post" and "CHR 0x00 \<notin> set post"
  shows "parseTemplate (pre @ ''{{'' @ x @ ''}}'' @ post) =
           Some ([Content pre] @ Mustache x # [Content post])"
proof -
  have nb: "CHR ''}'' \<notin> set x" "CHR ''{'' \<notin> set x" using placeholder_no_brace [OF assms(1)] by auto
  have n0: "CHR 0x00 \<notin> set x"
    using assms(1) by (auto simp: isPlaceholderName_def list_all_iff isIdChar_def isIdStart_def isDigit_def Let_def)
  have s: "splitOn2 (CHR ''{'') (CHR ''{'') (pre @ ''{{'' @ x @ ''}}'' @ post) = [pre, x @ ''}}'' @ post]"
    using splitOn2_prefix [OF assms(2), of "x @ ''}}'' @ post"]
      splitOn2_plain [of "CHR ''{''" "x @ ''}}'' @ post" "CHR ''{''"] nb(2) assms(5)
    by simp
  have b: "breakOn2 (CHR ''}'') (CHR ''}'') (x @ ''}}'' @ post) = Some (x, post)"
    using breakOn2_prefix [OF nb(1), of post] by simp
  have p: "parsePiece (x @ ''}}'' @ post) = Some (x, post)"
    using assms(1) b by (simp add: parsePiece_def placeholder_trim)
  have z: "CHR 0x00 \<notin> set (pre @ ''{{'' @ x @ ''}}'' @ post)"
    using assms(3,6) n0 by simp
  show ?thesis
    using assms(4) s p z by (simp add: parseTemplate_def)
qed






section \<open>Properties of the loader\<close>

lemma scanAll_acc:
  "scanAll fs env xs acc = map_sum id ((@) acc) (scanAll fs env xs [])"
proof (induction xs arbitrary: acc)
  case Nil
  then show ?case by simp
next
  case (Cons p xs)
  show ?case
  proof (cases "scanDirectory fs env p 2 0")
    case (Inl e)
    then show ?thesis by simp
  next
    case (Inr f)
    have a: "scanAll fs env xs (acc @ f) = map_sum id ((@) (acc @ f)) (scanAll fs env xs [])"
      by (rule Cons.IH)
    have b: "scanAll fs env xs f = map_sum id ((@) f) (scanAll fs env xs [])"
      by (rule Cons.IH)
    show ?thesis using Inr a b by (cases "scanAll fs env xs []") simp_all
  qed
qed

lemma scanAll_Cons:
  "scanAll fs env (p # xs) [] =
     (case scanDirectory fs env p 2 0 of
        Inl e \<Rightarrow> Inl e
      | Inr f \<Rightarrow> map_sum id ((@) f) (scanAll fs env xs []))"
proof (cases "scanDirectory fs env p 2 0")
  case (Inl e)
  then show ?thesis by simp
next
  case (Inr f)
  then show ?thesis using scanAll_acc [of fs env xs f] by simp
qed

lemma scanAll_succeeds:
  "\<forall>p\<in>set xs. \<exists>f. scanDirectory fs env p 2 0 = Inr f \<Longrightarrow> \<exists>b. scanAll fs env xs [] = Inr b"
proof (induction xs)
  case Nil
  then show ?case by simp
next
  case (Cons q xs)
  then obtain fq b where "scanDirectory fs env q 2 0 = Inr fq" "scanAll fs env xs [] = Inr b"
    by auto
  then show ?case by (simp del: scanAll.simps add: scanAll_Cons)
qed

lemma scanAll_split:
  assumes "\<forall>p\<in>set (pre @ r # post). \<exists>f. scanDirectory fs env p 2 0 = Inr f"
    and "scanDirectory fs env r 2 0 = Inr found"
  shows "\<exists>a b. scanAll fs env (pre @ r # post) [] = Inr (a @ found @ b)
           \<and> (\<forall>x\<in>set a. \<exists>p\<in>set pre. \<exists>f. scanDirectory fs env p 2 0 = Inr f \<and> x \<in> set f)"
  using assms
proof (induction pre)
  case Nil
  then obtain b where "scanAll fs env post [] = Inr b"
    using scanAll_succeeds [of post fs env] by auto
  with Nil(2) have "scanAll fs env ([] @ r # post) [] = Inr ([] @ found @ b)"
    by (simp del: scanAll.simps add: scanAll_Cons)
  then show ?case by (metis empty_iff empty_set)
next
  case (Cons q pre)
  from Cons.prems(1) obtain fq where fq: "scanDirectory fs env q 2 0 = Inr fq" by auto
  from Cons.IH Cons.prems obtain a b where
    ab: "scanAll fs env (pre @ r # post) [] = Inr (a @ found @ b)"
    and sub: "\<forall>x\<in>set a. \<exists>p\<in>set pre. \<exists>f. scanDirectory fs env p 2 0 = Inr f \<and> x \<in> set f"
    by auto
  have "scanAll fs env ((q # pre) @ r # post) [] = Inr ((fq @ a) @ found @ b)"
    using fq ab by (simp del: scanAll.simps add: scanAll_Cons)
  moreover have "\<forall>x\<in>set (fq @ a). \<exists>p\<in>set (q # pre). \<exists>f. scanDirectory fs env p 2 0 = Inr f \<and> x \<in> set f"
    using fq sub by auto
  ultimately show ?case by blast
qed

lemma filter_dedupe:
  "filter (\<lambda>w. name (loaded w) = n) (dedupe seen ws) =
     (if n \<in> set seen then []
      else (case find (\<lambda>w. name (loaded w) = n) ws of None \<Rightarrow> [] | Some w \<Rightarrow> [w]))"
proof (induction ws arbitrary: seen)
  case Nil
  then show ?case by simp
next
  case (Cons w ws)
  show ?case
  proof (cases "name (loaded w) \<in> set seen")
    case True
    then show ?thesis using Cons [of seen] by auto
  next
    case False
    then show ?thesis using Cons [of "name (loaded w) # seen"] by auto
  qed
qed

lemma dedupe_not_seen:
  "x \<in> set (dedupe seen ws) \<Longrightarrow> name (loaded x) \<notin> set seen"
proof (induction ws arbitrary: seen)
  case Nil
  then show ?case by simp
next
  case (Cons w ws)
  show ?case
  proof (cases "name (loaded w) \<in> set seen")
    case True
    with Cons show ?thesis by simp
  next
    case False
    with Cons.prems have "x = w \<or> x \<in> set (dedupe (name (loaded w) # seen) ws)" by simp
    then show ?thesis
    proof
      assume "x = w"
      with False show ?thesis by simp
    next
      assume "x \<in> set (dedupe (name (loaded w) # seen) ws)"
      from Cons.IH [OF this] show ?thesis by simp
    qed
  qed
qed

lemma distinct_dedupe: "distinct (map (\<lambda>w. name (loaded w)) (dedupe seen ws))"
proof (induction ws arbitrary: seen)
  case Nil
  then show ?case by simp
next
  case (Cons w ws)
  show ?case
  proof (cases "name (loaded w) \<in> set seen")
    case True
    with Cons show ?thesis by simp
  next
    case False
    have "name (loaded w) \<notin> (\<lambda>w. name (loaded w)) ` set (dedupe (name (loaded w) # seen) ws)"
    proof
      assume "name (loaded w) \<in> (\<lambda>w. name (loaded w)) ` set (dedupe (name (loaded w) # seen) ws)"
      then obtain x where x: "x \<in> set (dedupe (name (loaded w) # seen) ws)"
        and eq: "name (loaded x) = name (loaded w)" by auto
      from dedupe_not_seen [OF x] eq show False by simp
    qed
    with False Cons show ?thesis by simp
  qed
qed

lemma find_append_notin:
  "\<forall>x\<in>set a. \<not> P x \<Longrightarrow> find P (a @ b) = find P b"
  by (induction a) auto

lemma find_append_Some: "find P a = Some x \<Longrightarrow> find P (a @ b) = Some x"
  by (induction a) (auto split: if_splits)

text \<open>
  C7. Let the scans of all search roots succeed, and let \<open>w\<close> be the first workflow named
  \<open>n\<close> in the scan of the root \<open>r\<close>, no root before \<open>r\<close> holding a workflow of that name.
  Then \<open>listWorkflows\<close> returns a list in which \<open>w\<close> is the only workflow named \<open>n\<close>,
  whatever the roots after \<open>r\<close> hold; and no two workflows of the list have the same
  name.
\<close>

theorem first_root_wins:
  assumes "getWorkflowPaths fs env searchPaths = pre @ r # post"
    and "\<forall>p\<in>set (pre @ r # post). \<exists>f. scanDirectory fs env p 2 0 = Inr f"
    and "\<forall>p\<in>set pre. \<forall>f. scanDirectory fs env p 2 0 = Inr f \<longrightarrow>
            n \<notin> (\<lambda>w. name (loaded w)) ` set f"
    and "scanDirectory fs env r 2 0 = Inr found"
    and "find (\<lambda>w. name (loaded w) = n) found = Some w"
  shows "\<exists>ws. listWorkflows fs env searchPaths = Inr ws
           \<and> filter (\<lambda>w. name (loaded w) = n) ws = [w]
           \<and> distinct (map (\<lambda>w. name (loaded w)) ws)"
proof -
  from scanAll_split [OF assms(2,4)] obtain a b where
    ab: "scanAll fs env (pre @ r # post) [] = Inr (a @ found @ b)"
    and sub: "\<forall>x\<in>set a. \<exists>p\<in>set pre. \<exists>f. scanDirectory fs env p 2 0 = Inr f \<and> x \<in> set f"
    by blast
  have "\<forall>x\<in>set a. \<not> name (loaded x) = n"
  proof
    fix x assume "x \<in> set a"
    with sub obtain p f where "p \<in> set pre" "scanDirectory fs env p 2 0 = Inr f" "x \<in> set f"
      by blast
    with assms(3) show "\<not> name (loaded x) = n" by auto
  qed
  then have "find (\<lambda>w. name (loaded w) = n) (a @ found @ b) = Some w"
    using assms(5) by (simp add: find_append_notin find_append_Some)
  then show ?thesis
    using ab assms(1) filter_dedupe [of n "[]" "a @ found @ b"] distinct_dedupe [of "[]" "a @ found @ b"]
    by (simp add: listWorkflows_def)
qed

lemma example_paths:
  "getWorkflowPaths exampleFs exampleEnv None = [] @ ''/p/workflows'' # [''/home/.chrome-claude/workflows'']"
  by code_simp

lemma example_scan_local:
  "scanDirectory exampleFs exampleEnv ''/p/workflows'' 2 0 =
     Inr [\<lparr>loaded = openWorkflow ''Open {{url}}'', filePath = ''/p/workflows/open.ts'',
           directory = ''/p/workflows''\<rparr>]"
  by code_simp

lemma example_scan_global:
  "scanDirectory exampleFs exampleEnv ''/home/.chrome-claude/workflows'' 2 0 =
     Inr [\<lparr>loaded = openWorkflow ''Browse {{url}}'',
           filePath = ''/home/.chrome-claude/workflows/browse.ts'',
           directory = ''/home/.chrome-claude/workflows''\<rparr>]"
  by code_simp

theorem first_root_wins_witness:
  "name (openWorkflow ''Open {{url}}'') = name (openWorkflow ''Browse {{url}}'') \<and>
   (\<exists>ws. listWorkflows exampleFs exampleEnv None = Inr ws
      \<and> filter (\<lambda>w. name (loaded w) = ''open'') ws =
            [\<lparr>loaded = openWorkflow ''Open {{url}}'', filePath = ''/p/workflows/open.ts'',
              directory = ''/p/workflows''\<rparr>]
      \<and> distinct (map (\<lambda>w. name (loaded w)) ws))"
proof -
  have h2: "\<forall>p\<in>set ([] @ ''/p/workflows'' # [''/home/.chrome-claude/workflows'']).
              \<exists>f. scanDirectory exampleFs exampleEnv p 2 0 = Inr f"
    using example_scan_local example_scan_global by simp
  have h3: "\<forall>p\<in>set []. \<forall>f. scanDirectory exampleFs exampleEnv p 2 0 = Inr f \<longrightarrow>
              ''open'' \<notin> (\<lambda>w. name (loaded w)) ` set f"
    by simp
  have h5: "find (\<lambda>w. name (loaded w) = ''open'')
              [\<lparr>loaded = openWorkflow ''Open {{url}}'', filePath = ''/p/workflows/open.ts'',
                directory = ''/p/workflows''\<rparr>] =
            Some \<lparr>loaded = openWorkflow ''Open {{url}}'', filePath = ''/p/workflows/open.ts'',
                  directory = ''/p/workflows''\<rparr>"
    by (simp add: openWorkflow_def)
  show ?thesis
    using first_root_wins [OF example_paths h2 h3 example_scan_local h5]
    by (simp add: openWorkflow_def)
qed

section \<open>Properties of the runner\<close>

lemma example_load:
  "getWorkflow (fileSystem exampleWorld) exampleEnv ''open'' None =
     Inr \<lparr>loaded = openWorkflow ''Open {{url}}'', filePath = ''/p/workflows/open.ts'',
          directory = ''/p/workflows''\<rparr>"
  by code_simp

text \<open>
  C4. When the workflow loads and its parameters fail validation, \<open>runWorkflow\<close> resolves
  to a result with \<open>success = false\<close> and the formatted validation errors, and the world
  (the file system, the spawned processes and the two output streams) is as it was.
\<close>

theorem invalid_params_no_side_effect:
  assumes "getWorkflow (fileSystem world) env nameOrPath None = Inr w"
    and "\<not> valid (coerceAndValidate (loaded w) (runParams options))"
  shows "runWorkflow nameOrPath options env world =
     Some (Resolved \<lparr>success = False, outputDir = [], files = [],
                     error = Some (''Parameter validation failed:'' @ CHR 0x0A #
                        formatErrors (errors (coerceAndValidate (loaded w) (runParams options)))),
                     duration = None\<rparr>,
           world)"
  using assms by (simp add: runWorkflow_def executeWorkflow_def coerceAndValidate_def Let_def)

theorem invalid_params_no_side_effect_witness:
  "runWorkflow ''open'' (exampleOptions [] False) exampleEnv exampleWorld =
     Some (Resolved \<lparr>success = False, outputDir = [], files = [],
                     error = Some (''Parameter validation failed:'' @ CHR 0x0A #
                                   ''  - url: Required parameter missing: url''),
                     duration = None\<rparr>,
           exampleWorld)"
proof -
  have v: "coerceAndValidate (openWorkflow ''Open {{url}}'') [] =
      \<lparr>valid = False,
       errors = [\<lparr>param = ''url'', message = ''Required parameter missing: url''\<rparr>],
       resolvedParams = []\<rparr>"
    by code_simp
  have h2: "\<not> valid (coerceAndValidate
        (loaded \<lparr>loaded = openWorkflow ''Open {{url}}'', filePath = ''/p/workflows/open.ts'',
                 directory = ''/p/workflows''\<rparr>) (runParams (exampleOptions [] False)))"
    by (simp add: v exampleOptions_def)
  show ?thesis
    using invalid_params_no_side_effect [OF example_load h2]
    by (simp add: v exampleOptions_def formatErrors_def)
qed



text \<open>A dry run changes neither the file system nor the processes, whatever it returns.\<close>

lemma dry_run_frame:
  assumes "dryRun options = Some True"
    and "runWorkflow nameOrPath options env world = Some (r, world')"
  shows "fileSystem world' = fileSystem world \<and> spawned world' = spawned world"
  using assms
  by (auto simp: runWorkflow_def executeWorkflow_def Let_def split: sum.splits option.splits if_splits)

end
